theory Spec2Isabelle
  imports Complex_Main "HOL-Library.Multiset"
begin

section \<open>JavaScript values used by the animator\<close>

text \<open>
  The animator (\<^verbatim>\<open>ExcalidrawAnimator\<close>) and the pipeline (\<^verbatim>\<open>EnhancedExcalidrawPipeline\<close>)
  compute with JavaScript numbers. Finite numbers are modelled as exact rationals: rounding
  of doubles is not modelled, and the integer read from a digit string by \<^verbatim>\<open>Number\<close> is the
  exact integer. Where the source divides by a value that can be zero
  (\<^verbatim>\<open>calculateAnimationSpeed\<close>), the number type \<open>jsnum\<close> below adds the infinities and NaN.

  \<^verbatim>\<open>a || b\<close> on numbers yields \<open>b\<close> when \<open>a\<close> is falsy, that is \<open>0\<close> (or \<^verbatim>\<open>undefined\<close>
  for an absent field).
\<close>

definition num_or :: "'a::zero \<Rightarrow> 'a \<Rightarrow> 'a" where
  "num_or a b = (if a = 0 then b else a)"

fun field_or :: "rat option \<Rightarrow> rat \<Rightarrow> rat" where
  "field_or None b = b"
| "field_or (Some a) b = num_or a b"

fun str_or :: "string option \<Rightarrow> string \<Rightarrow> string" where
  "str_or None b = b"
| "str_or (Some a) b = (if a = [] then b else a)"

section \<open>Drawing elements\<close>

text \<open>
  An Excalidraw element as the animator reads it. An absent field is \<open>None\<close>; an absent
  \<^verbatim>\<open>groupIds\<close> is the empty list (\<^verbatim>\<open>element.groupIds || []\<close>), and \<open>roundness\<close> records
  whether \<^verbatim>\<open>element.roundness\<close> is truthy, the only thing the source asks of it.
\<close>

record element =
  el_id :: string
  el_type :: string
  groupIds :: "string list"
  created :: "rat option"
  versionNonce :: "rat option"
  backgroundColor :: "string option"
  roundness :: bool
  el_x :: "rat option"
  el_y :: "rat option"
  width :: "rat option"
  height :: "rat option"
  points :: "(rat \<times> rat) list option"
  el_text :: "string option"
  fontSize :: "rat option"

section \<open>Order and duration hints encoded in the element id\<close>

text \<open>
  \<^verbatim>\<open>element.id.match(new RegExp(`${key}:(-?\\d+)`))\<close> finds the leftmost position of the id
  at which \<open>key\<close>, a colon, an optional minus sign and at least one decimal digit follow
  each other; the capture group is the sign with the longest run of digits.
\<close>

definition is_digit :: "char \<Rightarrow> bool" where
  "is_digit c = (c \<in> set ''0123456789'')"

text \<open>The value of a decimal digit is its position in \<open>0123456789\<close>.\<close>

definition digit_val :: "char \<Rightarrow> nat" where
  "digit_val c = length (takeWhile (\<lambda>d. d \<noteq> c) ''0123456789'')"

definition digits_value :: "string \<Rightarrow> nat" where
  "digits_value ds = foldl (\<lambda>a c. 10 * a + digit_val c) 0 ds"

text \<open>\<^verbatim>\<open>Number(s)\<close> on a capture of the shape \<^verbatim>\<open>-?\d+\<close>.\<close>

definition js_Number :: "string \<Rightarrow> int" where
  "js_Number s =
     (if s \<noteq> [] \<and> hd s = CHR ''-'' then - int (digits_value (tl s))
      else int (digits_value s))"

definition match_capture :: "string \<Rightarrow> string option" where
  "match_capture s =
     (if s \<noteq> [] \<and> hd s = CHR ''-'' \<and> takeWhile is_digit (tl s) \<noteq> []
        then Some (CHR ''-'' # takeWhile is_digit (tl s))
      else if takeWhile is_digit s \<noteq> [] then Some (takeWhile is_digit s)
      else None)"

definition match_here :: "string \<Rightarrow> string \<Rightarrow> string option" where
  "match_here key s =
     (if take (length key + 1) s = key @ '':''
        then match_capture (drop (length key + 1) s)
      else None)"

fun regex_match :: "string \<Rightarrow> string \<Rightarrow> string option" where
  "regex_match key [] = match_here key []"
| "regex_match key (c # cs) =
     (case match_here key (c # cs) of
        Some m \<Rightarrow> Some m
      | None \<Rightarrow> regex_match key cs)"

text \<open>\<^verbatim>\<open>return (match && Number(match[1])) || 0;\<close>\<close>

definition extractNumberFromElement :: "element \<Rightarrow> string \<Rightarrow> int" where
  "extractNumberFromElement element key =
     (case regex_match key (el_id element) of
        None \<Rightarrow> 0
      | Some m \<Rightarrow> num_or (js_Number m) 0)"

section \<open>Sorting elements by animation order\<close>

text \<open>
  The comparator handed to \<^verbatim>\<open>Array.prototype.sort\<close>. The copy \<^verbatim>\<open>[...elements]\<close> is sorted,
  the argument is left as it is. The comparator is a consistent one (it is the comparison
  of a key, see \<open>daiShiCompare_trans\<close>), so the sorted array is the one stable
  arrangement, whatever algorithm the engine runs; \<open>js_sort\<close> computes it by stable
  insertion.
\<close>

definition elementTime :: "element \<Rightarrow> rat" where
  "elementTime a = field_or (created a) (field_or (versionNonce a) 0)"

definition daiShiCompare :: "element \<Rightarrow> element \<Rightarrow> rat" where
  "daiShiCompare a b =
     (let aOrder = extractNumberFromElement a ''animateOrder'';
          bOrder = extractNumberFromElement b ''animateOrder''
      in if aOrder = 0 \<and> bOrder = 0
         then elementTime a - elementTime b
         else of_int (aOrder - bOrder))"

fun insort_cmp :: "('a \<Rightarrow> 'a \<Rightarrow> rat) \<Rightarrow> 'a \<Rightarrow> 'a list \<Rightarrow> 'a list" where
  "insort_cmp cmp x [] = [x]"
| "insort_cmp cmp x (y # ys) =
     (if cmp x y \<le> 0 then x # y # ys else y # insort_cmp cmp x ys)"

definition js_sort :: "('a \<Rightarrow> 'a \<Rightarrow> rat) \<Rightarrow> 'a list \<Rightarrow> 'a list" where
  "js_sort cmp xs = foldr (insort_cmp cmp) xs []"

definition sortElementsByDaiShiOrder :: "element list \<Rightarrow> element list" where
  "sortElementsByDaiShiOrder elements = js_sort daiShiCompare elements"

section \<open>Animation descriptors\<close>

text \<open>
  SVG path strings are kept as lists of path commands with their numeric arguments; how
  a number prints inside the template string is not modelled.
\<close>

datatype path_cmd =
    MoveTo rat rat
  | LineTo rat rat
  | CurveTo rat rat rat rat rat rat
  | ArcTo rat rat rat rat
  | ClosePath
  | RelMoveTo rat rat
  | RelHLineTo rat

record pointer_motion =
  pm_startMs :: rat
  pm_durationMs :: rat
  pm_path :: "path_cmd list"
  pm_element :: string

record fill_animation =
  fa_element :: element
  fa_startMs :: rat
  fa_durationMs :: rat
  fa_fillColor :: string

record text_path =
  tp_id :: string
  tp_pathData :: "path_cmd list"
  tp_element :: string

record freedraw_segment =
  pointIndex :: nat
  fs_progress :: rat
  fs_point :: "rat \<times> rat"

text \<open>
  The object returned by the \<^verbatim>\<open>animate...\<close> methods. The fields that only some of
  them set are optional; \<open>fillAnimation = None\<close> stands for both \<^verbatim>\<open>null\<close> and an absent
  field, which the source only tests for truthiness.
\<close>

record animation =
  an_type :: string
  an_element :: element
  startMs :: rat
  durationMs :: rat
  an_method :: string
  progressive :: bool
  segments :: "nat option"
  pointer :: "pointer_motion option"
  strokeDuration :: "rat option"
  fillAnimation :: "fill_animation option"
  characters :: "nat option"
  textPath :: "text_path option"
  textWidth :: "rat option"
  pointCount :: "nat option"
  interpolated :: "freedraw_segment list option"
  an_groupIds :: "string list option"
  groupAnimation :: bool

definition base_animation ::
  "string \<Rightarrow> element \<Rightarrow> rat \<Rightarrow> rat \<Rightarrow> string \<Rightarrow> bool \<Rightarrow> animation" where
  "base_animation ty element currentMs durMs meth prog =
     \<lparr>an_type = ty, an_element = element, startMs = currentMs, durationMs = durMs,
      an_method = meth, progressive = prog, segments = None, pointer = None,
      strokeDuration = None, fillAnimation = None, characters = None, textPath = None,
      textWidth = None, pointCount = None, interpolated = None, an_groupIds = None,
      groupAnimation = False\<rparr>"

subsection \<open>Pointer paths\<close>

definition generateLinePointerPath :: "element \<Rightarrow> path_cmd list" where
  "generateLinePointerPath element =
     (let startX = field_or (el_x element) 0;
          startY = field_or (el_y element) 0;
          endX = startX + field_or (width element) 100;
          endY = startY + field_or (height element) 100
      in [MoveTo startX startY, LineTo endX endY])"

definition generateRectPointerPath :: "element \<Rightarrow> path_cmd list" where
  "generateRectPointerPath element =
     (let x = field_or (el_x element) 0;
          y = field_or (el_y element) 0;
          w = field_or (width element) 100;
          h = field_or (height element) 100
      in [MoveTo x y, LineTo (x + w) y, LineTo (x + w) (y + h), LineTo x (y + h),
          ClosePath])"

definition generateEllipsePointerPath :: "element \<Rightarrow> path_cmd list" where
  "generateEllipsePointerPath element =
     (let cx = field_or (el_x element) 0 + field_or (width element) 100 / 2;
          cy = field_or (el_y element) 0 + field_or (height element) 100 / 2;
          rx = field_or (width element) 100 / 2;
          ry = field_or (height element) 100 / 2
      in [MoveTo (cx + rx) cy,
          CurveTo (cx + rx) (cy - ry * (55 / 100)) (cx + rx * (55 / 100)) (cy - ry)
                  cx (cy - ry),
          CurveTo (cx - rx * (55 / 100)) (cy - ry) (cx - rx) (cy - ry * (55 / 100))
                  (cx - rx) cy,
          CurveTo (cx - rx) (cy + ry * (55 / 100)) (cx - rx * (55 / 100)) (cy + ry)
                  cx (cy + ry),
          CurveTo (cx + rx * (55 / 100)) (cy + ry) (cx + rx) (cy + ry * (55 / 100))
                  (cx + rx) cy])"

definition generateGenericPointerPath :: "element \<Rightarrow> path_cmd list" where
  "generateGenericPointerPath element =
     (let cx = field_or (el_x element) 0 + field_or (width element) 50 / 2;
          cy = field_or (el_y element) 0 + field_or (height element) 50 / 2
      in [MoveTo cx cy])"

definition generateFreedrawPointerPath :: "element \<Rightarrow> path_cmd list" where
  "generateFreedrawPointerPath element =
     (case points element of
        None \<Rightarrow> generateGenericPointerPath element
      | Some [] \<Rightarrow> generateGenericPointerPath element
      | Some ((x, y) # ps) \<Rightarrow> MoveTo x y # map (\<lambda>(px, py). LineTo px py) ps)"

definition generatePointerPath :: "element \<Rightarrow> path_cmd list" where
  "generatePointerPath element =
     (if el_type element = ''line'' \<or> el_type element = ''arrow''
        then generateLinePointerPath element
      else if el_type element = ''rectangle'' then generateRectPointerPath element
      else if el_type element = ''ellipse'' then generateEllipsePointerPath element
      else if el_type element = ''freedraw'' then generateFreedrawPointerPath element
      else generateGenericPointerPath element)"

definition animatePointer :: "element \<Rightarrow> rat \<Rightarrow> rat \<Rightarrow> pointer_motion" where
  "animatePointer element currentMs durMs =
     \<lparr>pm_startMs = currentMs, pm_durationMs = durMs,
      pm_path = generatePointerPath element, pm_element = el_id element\<rparr>"

subsection \<open>The animation of one element\<close>

text \<open>\<^verbatim>\<open>generatePathData\<close> fixes the path complexity at 4 segments.\<close>

definition generatePathData_segments :: "element \<Rightarrow> rat" where
  "generatePathData_segments element = 4"

definition segmentPath :: "rat \<Rightarrow> (nat \<times> rat) list" where
  "segmentPath segs =
     (let segmentCount = nat (max 1 \<lfloor>segs\<rfloor>)
      in map (\<lambda>i. (i, (of_nat i + 1) / of_nat segmentCount)) [0..<segmentCount])"

definition getElementAnimationType :: "element \<Rightarrow> string" where
  "getElementAnimationType element =
     (if el_type element = ''line'' \<or> el_type element = ''arrow'' then
        (if str_or (backgroundColor element) [] \<noteq> []
            \<and> backgroundColor element \<noteq> Some ''transparent''
         then (if roundness element then ''path-with-fill'' else ''polygon'')
         else (if roundness element then ''path'' else ''polygon''))
      else if el_type element = ''rectangle'' \<or> el_type element = ''diamond''
        then ''polygon''
      else if el_type element = ''ellipse'' then ''path''
      else if el_type element = ''text'' then ''text''
      else if el_type element = ''freedraw'' then ''freedraw''
      else if el_type element = ''image'' then ''image''
      else ''generic'')"

definition animatePath :: "element \<Rightarrow> rat \<Rightarrow> rat \<Rightarrow> animation" where
  "animatePath element currentMs durMs =
     (let segs = segmentPath (generatePathData_segments element);
          pointerAnimation = animatePointer element currentMs durMs
      in (base_animation ''path-animation'' element currentMs durMs
            ''progressive-stroke'' True)
         \<lparr>segments := Some (length segs), pointer := Some pointerAnimation\<rparr>)"

definition animateFillPath :: "element \<Rightarrow> rat \<Rightarrow> rat \<Rightarrow> fill_animation option" where
  "animateFillPath element currentMs durMs =
     (if str_or (backgroundColor element) [] = []
         \<or> backgroundColor element = Some ''transparent''
      then None
      else Some \<lparr>fa_element = element, fa_startMs = currentMs,
                 fa_durationMs = durMs,
                 fa_fillColor = the (backgroundColor element)\<rparr>)"

definition animatePolygon :: "element \<Rightarrow> rat \<Rightarrow> rat \<Rightarrow> animation" where
  "animatePolygon element currentMs durMs =
     (let strokeDur = durMs * (75 / 100);
          fillDuration = durMs * (25 / 100);
          fillStartMs = currentMs + strokeDur;
          fillAnim = animateFillPath element fillStartMs fillDuration
      in (base_animation ''polygon-animation'' element currentMs durMs
            ''segment-progression'' True)
         \<lparr>strokeDuration := Some strokeDur, fillAnimation := fillAnim\<rparr>)"

definition text_length :: "element \<Rightarrow> nat" where
  "text_length element = (case el_text element of None \<Rightarrow> 0 | Some t \<Rightarrow> length t)"

definition estimateTextWidth :: "element \<Rightarrow> rat" where
  "estimateTextWidth element =
     of_nat (text_length element) * field_or (fontSize element) 20 * (6 / 10)"

definition createTextPath :: "element \<Rightarrow> rat \<Rightarrow> text_path" where
  "createTextPath element w =
     \<lparr>tp_id = ''textPath-'' @ el_id element,
      tp_pathData = [RelMoveTo (field_or (el_x element) 0) (field_or (el_y element) 0),
                     RelHLineTo w],
      tp_element = el_id element\<rparr>"

definition animateText :: "element \<Rightarrow> rat \<Rightarrow> rat \<Rightarrow> animation" where
  "animateText element currentMs durMs =
     (let textLength = text_length element;
          tw = estimateTextWidth element;
          tp = createTextPath element tw;
          pointerAnimation = animatePointer element currentMs durMs
      in (base_animation ''text-animation'' element currentMs durMs
            ''character-progression'' True)
         \<lparr>characters := Some textLength, textPath := Some tp, textWidth := Some tw,
          pointer := Some pointerAnimation\<rparr>)"

definition createFreedrawInterpolation :: "element \<Rightarrow> nat \<Rightarrow> freedraw_segment list" where
  "createFreedrawInterpolation element n =
     (case points element of
        None \<Rightarrow> []
      | Some ps \<Rightarrow>
          if n = 0 then []
          else map (\<lambda>i. \<lparr>pointIndex = i, fs_progress = (of_nat i + 1) / of_nat n,
                           fs_point = ps ! i\<rparr>) [0..<n])"

definition animateFreedraw :: "element \<Rightarrow> rat \<Rightarrow> rat \<Rightarrow> animation" where
  "animateFreedraw element currentMs durMs =
     (let n = (case points element of None \<Rightarrow> 0 | Some ps \<Rightarrow> length ps);
          interpolatedSegments = createFreedrawInterpolation element n;
          pointerAnimation = animatePointer element currentMs durMs
      in (base_animation ''freedraw-animation'' element currentMs durMs
            ''point-progression'' True)
         \<lparr>pointCount := Some n, interpolated := Some interpolatedSegments,
          pointer := Some pointerAnimation\<rparr>)"

definition animateImage :: "element \<Rightarrow> rat \<Rightarrow> rat \<Rightarrow> animation" where
  "animateImage element currentMs durMs =
     base_animation ''image-animation'' element currentMs durMs ''opacity-fade'' False"

definition animateGeneric :: "element \<Rightarrow> rat \<Rightarrow> rat \<Rightarrow> animation" where
  "animateGeneric element currentMs durMs =
     base_animation ''generic-animation'' element currentMs durMs ''opacity-fade'' False"

text \<open>
  \<^verbatim>\<open>createElementAnimation\<close>: a duration encoded in the id takes the place of the duration
  passed in; the \<^verbatim>\<open>switch\<close> has no case for \<^verbatim>\<open>'path-with-fill'\<close>, which falls to the default.
\<close>

definition createElementAnimation :: "element \<Rightarrow> rat \<Rightarrow> rat \<Rightarrow> animation" where
  "createElementAnimation element currentMs durMs =
     (let animationType = getElementAnimationType element;
          customDuration =
            num_or (of_int (extractNumberFromElement element ''animateDuration'')) durMs;
          anim =
            (if animationType = ''path'' then animatePath element currentMs customDuration
             else if animationType = ''polygon''
               then animatePolygon element currentMs customDuration
             else if animationType = ''text'' then animateText element currentMs customDuration
             else if animationType = ''freedraw''
               then animateFreedraw element currentMs customDuration
             else if animationType = ''image''
               then animateImage element currentMs customDuration
             else animateGeneric element currentMs customDuration)
      in if length (groupIds element) > 0
         then anim\<lparr>an_groupIds := Some (groupIds element), groupAnimation := True\<rparr>
         else anim)"

section \<open>Animation groups\<close>

text \<open>
  \<^verbatim>\<open>createAnimationGroups\<close> keys a plain object by the first group id of each element. A
  key that a plain object inherits from \<^verbatim>\<open>Object.prototype\<close> reads as a truthy value with
  no \<^verbatim>\<open>elements\<close> array, so \<^verbatim>\<open>groups[groupId].elements.push\<close> raises a \<^verbatim>\<open>TypeError\<close>.
\<close>

datatype js_error = TypeError

definition inherited_key :: "string \<Rightarrow> bool" where
  "inherited_key k =
     (k \<in> set [''constructor'', ''__proto__'', ''toString'', ''toLocaleString'',
                ''valueOf'', ''hasOwnProperty'', ''isPrototypeOf'',
                ''propertyIsEnumerable'', ''__defineGetter__'', ''__defineSetter__'',
                ''__lookupGetter__'', ''__lookupSetter__''])"

record animation_group =
  elements :: "element list"
  processed :: bool

type_synonym group_table = "string \<rightharpoonup> animation_group"

fun collect_groups :: "element list \<Rightarrow> group_table \<Rightarrow> js_error + group_table" where
  "collect_groups [] groups = Inr groups"
| "collect_groups (element # rest) groups =
     (case groupIds element of
        [] \<Rightarrow> collect_groups rest groups
      | groupId # _ \<Rightarrow>
          if inherited_key groupId then Inl TypeError
          else
            (let g = (case groups groupId of
                        None \<Rightarrow> \<lparr>elements = [], processed = False\<rparr>
                      | Some g0 \<Rightarrow> g0)
             in collect_groups rest
                  (groups(groupId \<mapsto> g\<lparr>elements := elements g @ [element]\<rparr>))))"

definition createAnimationGroups :: "element list \<Rightarrow> js_error + group_table" where
  "createAnimationGroups els = collect_groups els Map.empty"

section \<open>The timeline allocator\<close>

text \<open>
  The loop of \<^verbatim>\<open>generateWithExcalidrawAnimate\<close> over the sorted elements. Its state is the
  cursor \<^verbatim>\<open>currentMs\<close>, the array \<^verbatim>\<open>animatedFrames\<close> and the group table, whose
  \<^verbatim>\<open>processed\<close> flags the loop sets.
\<close>

definition groupDur :: rat where
  "groupDur = 5000"

definition individualDur :: rat where
  "individualDur = 500"

record alloc_state =
  currentMs :: rat
  animatedFrames :: "animation list"
  groups :: group_table

fun animate_group :: "element list \<Rightarrow> rat \<Rightarrow> alloc_state \<Rightarrow> alloc_state" where
  "animate_group [] groupDuration st = st"
| "animate_group (groupElement # rest) groupDuration st =
     animate_group rest groupDuration
       (st\<lparr>animatedFrames :=
              animatedFrames st
                @ [createElementAnimation groupElement (currentMs st) groupDuration],
            currentMs := currentMs st + groupDuration\<rparr>)"

definition allocate_element :: "element \<Rightarrow> alloc_state \<Rightarrow> alloc_state" where
  "allocate_element element st =
     (let duration =
            num_or (of_int (extractNumberFromElement element ''animateDuration''))
              individualDur
      in case groupIds element of
           [] \<Rightarrow>
             st\<lparr>animatedFrames :=
                  animatedFrames st @ [createElementAnimation element (currentMs st) duration],
                currentMs := currentMs st + duration\<rparr>
         | groupId # _ \<Rightarrow>
             (case groups st groupId of
                None \<Rightarrow> st
              | Some grp \<Rightarrow>
                  if processed grp then st
                  else
                    (let groupDuration = groupDur / (of_nat (length (elements grp)) + 1);
                         st' = animate_group (elements grp) groupDuration st
                     in st'\<lparr>groups := (groups st')(groupId \<mapsto> grp\<lparr>processed := True\<rparr>)\<rparr>)))"

fun allocate_loop :: "element list \<Rightarrow> alloc_state \<Rightarrow> alloc_state" where
  "allocate_loop [] st = st"
| "allocate_loop (element # rest) st = allocate_loop rest (allocate_element element st)"

text \<open>
  The timing part of \<^verbatim>\<open>generateWithExcalidrawAnimate\<close>: the sorted elements, the frames and
  the total duration \<^verbatim>\<open>currentMs + 1000\<close>.
\<close>

record timeline =
  tl_sortedElements :: "element list"
  tl_frames :: "animation list"
  tl_duration :: rat

definition allocate :: "element list \<Rightarrow> js_error + timeline" where
  "allocate els =
     (let sortedElements = sortElementsByDaiShiOrder els
      in case createAnimationGroups sortedElements of
           Inl err \<Rightarrow> Inl err
         | Inr grps \<Rightarrow>
             (let st = allocate_loop sortedElements
                         \<lparr>currentMs = 1000, animatedFrames = [], groups = grps\<rparr>
              in Inr \<lparr>tl_sortedElements = sortedElements, tl_frames = animatedFrames st,
                      tl_duration = currentMs st + 1000\<rparr>))"

text \<open>
  \<^verbatim>\<open>calculateDuration\<close> of the frame-by-frame fallback, over the timestamps
  \<^verbatim>\<open>{id, created, updated}\<close>.
\<close>

record timestamp =
  ts_id :: string
  ts_created :: "rat option"
  ts_updated :: "rat option"

fun list_min :: "rat list \<Rightarrow> rat" where
  "list_min [] = 0"
| "list_min [x] = x"
| "list_min (x # xs) = min x (list_min xs)"

fun list_max :: "rat list \<Rightarrow> rat" where
  "list_max [] = 0"
| "list_max [x] = x"
| "list_max (x # xs) = max x (list_max xs)"

definition calculateDuration :: "timestamp list \<Rightarrow> rat" where
  "calculateDuration timestamps =
     (if length timestamps = 0 then 3000
      else
        (let firstTime = list_min (map (\<lambda>t. field_or (ts_created t) 0) timestamps);
             lastTime = list_max (map (\<lambda>t. field_or (ts_updated t)
                                              (field_or (ts_created t) 0)) timestamps)
         in max (lastTime - firstTime) 1000))"

section \<open>Animation speed\<close>

text \<open>
  \<^verbatim>\<open>calculateAnimationSpeed\<close> divides by the narration duration, which can be zero, so
  its numbers carry the two infinities and NaN. Division by the number 0 is division by
  \<open>+0\<close>; \<^verbatim>\<open>Math.min\<close> and \<^verbatim>\<open>Math.max\<close> return NaN when an argument is NaN.
\<close>

datatype jsnum = Fin rat | PosInf | NegInf | NaN

fun js_div :: "jsnum \<Rightarrow> jsnum \<Rightarrow> jsnum" where
  "js_div NaN b = NaN"
| "js_div a NaN = NaN"
| "js_div (Fin a) (Fin b) =
     (if b \<noteq> 0 then Fin (a / b)
      else if a = 0 then NaN
      else if a > 0 then PosInf else NegInf)"
| "js_div (Fin a) PosInf = Fin 0"
| "js_div (Fin a) NegInf = Fin 0"
| "js_div PosInf (Fin b) = (if b \<ge> 0 then PosInf else NegInf)"
| "js_div NegInf (Fin b) = (if b \<ge> 0 then NegInf else PosInf)"
| "js_div PosInf PosInf = NaN"
| "js_div PosInf NegInf = NaN"
| "js_div NegInf PosInf = NaN"
| "js_div NegInf NegInf = NaN"

fun js_le :: "jsnum \<Rightarrow> jsnum \<Rightarrow> bool" where
  "js_le NaN b = False"
| "js_le a NaN = False"
| "js_le NegInf b = True"
| "js_le a PosInf = True"
| "js_le (Fin a) (Fin b) = (a \<le> b)"
| "js_le PosInf b = False"
| "js_le a NegInf = False"

definition Math_min :: "jsnum \<Rightarrow> jsnum \<Rightarrow> jsnum" where
  "Math_min a b = (if a = NaN \<or> b = NaN then NaN else if js_le a b then a else b)"

definition Math_max :: "jsnum \<Rightarrow> jsnum \<Rightarrow> jsnum" where
  "Math_max a b = (if a = NaN \<or> b = NaN then NaN else if js_le a b then b else a)"

definition calculateAnimationSpeed :: "nat \<Rightarrow> jsnum \<Rightarrow> jsnum" where
  "calculateAnimationSpeed elementCount narrationDuration =
     (let baseAnimationTime = Fin (of_nat elementCount * 500);
          speed = js_div baseAnimationTime narrationDuration
      in Math_max (Fin (1 / 2)) (Math_min (Fin 2) speed))"

section \<open>Narration timeline and synchronized timestamps\<close>

text \<open>
  \<^verbatim>\<open>createAudioTimeline\<close> of the narrator lays the audio segments one after the other with
  a pause of 500 ms after each; \<^verbatim>\<open>script.segments[i]\<close> beyond the end of the script is
  \<^verbatim>\<open>undefined\<close>, and reading its \<^verbatim>\<open>elements\<close> raises a \<^verbatim>\<open>TypeError\<close>. Writing the timeline to
  its JSON file is left out.
\<close>

record audio_segment =
  au_id :: string
  au_path :: string
  au_text :: string
  au_voice :: string
  au_duration :: rat

record script_segment =
  ss_elements :: "element list"

record animation_sync =
  sync_elements :: "element list"
  startFrame :: int
  endFrame :: int

record timeline_segment =
  seg_id :: string
  audioPath :: string
  seg_text :: string
  seg_voice :: string
  startTime :: rat
  endTime :: rat
  seg_duration :: rat
  animationSync :: animation_sync

record audio_timeline =
  at_segments :: "timeline_segment list"
  totalDuration :: rat

fun audio_loop ::
  "audio_segment list \<Rightarrow> script_segment list \<Rightarrow> nat \<Rightarrow> rat \<Rightarrow> timeline_segment list
     \<Rightarrow> js_error + audio_timeline" where
  "audio_loop [] script i currentTime segs =
     Inr \<lparr>at_segments = segs, totalDuration = currentTime\<rparr>"
| "audio_loop (audio # rest) script i currentTime segs =
     (if i < length script then
        (let scriptSegment = script ! i;
             seg = \<lparr>seg_id = au_id audio, audioPath = au_path audio,
                    seg_text = au_text audio, seg_voice = au_voice audio,
                    startTime = currentTime,
                    endTime = currentTime + au_duration audio,
                    seg_duration = au_duration audio,
                    animationSync =
                      \<lparr>sync_elements = ss_elements scriptSegment,
                       startFrame = \<lfloor>currentTime * 30 / 1000\<rfloor>,
                       endFrame = \<lfloor>(currentTime + au_duration audio) * 30 / 1000\<rfloor>\<rparr>\<rparr>
         in audio_loop rest script (i + 1) (currentTime + au_duration audio + 500)
              (segs @ [seg]))
      else Inl TypeError)"

definition createAudioTimeline ::
  "audio_segment list \<Rightarrow> script_segment list \<Rightarrow> js_error + audio_timeline" where
  "createAudioTimeline audioSegments script = audio_loop audioSegments script 0 0 []"

text \<open>
  \<^verbatim>\<open>createSynchronizedTimestamps\<close> of the pipeline: first the elements of every segment,
  then every element whose id no timestamp pushed so far carries.
\<close>

fun segment_loop ::
  "element list \<Rightarrow> nat \<Rightarrow> rat \<Rightarrow> rat \<Rightarrow> nat \<Rightarrow> timestamp list \<Rightarrow> timestamp list" where
  "segment_loop [] idx start dur n timestamps = timestamps"
| "segment_loop (element # rest) idx start dur n timestamps =
     (let elementStartTime = start + (dur / of_nat n) * of_nat idx
      in segment_loop rest (idx + 1) start dur n
           (timestamps @ [\<lparr>ts_id = el_id element, ts_created = Some elementStartTime,
                           ts_updated = Some (elementStartTime + dur / of_nat n)\<rparr>]))"

fun segments_loop :: "timeline_segment list \<Rightarrow> timestamp list \<Rightarrow> timestamp list" where
  "segments_loop [] timestamps = timestamps"
| "segments_loop (segment # rest) timestamps =
     (let segmentElements = sync_elements (animationSync segment)
      in segments_loop rest
           (segment_loop segmentElements 0 (startTime segment) (seg_duration segment)
              (length segmentElements) timestamps))"

fun remaining_loop :: "element list \<Rightarrow> rat \<Rightarrow> timestamp list \<Rightarrow> timestamp list" where
  "remaining_loop [] totalMs timestamps = timestamps"
| "remaining_loop (element # rest) totalMs timestamps =
     remaining_loop rest totalMs
       (if find (\<lambda>t. ts_id t = el_id element) timestamps = None
        then timestamps @ [\<lparr>ts_id = el_id element, ts_created = Some totalMs,
                             ts_updated = Some (totalMs + 1000)\<rparr>]
        else timestamps)"

definition createSynchronizedTimestamps ::
  "element list \<Rightarrow> audio_timeline \<Rightarrow> timestamp list" where
  "createSynchronizedTimestamps els tline =
     remaining_loop els (totalDuration tline) (segments_loop (at_segments tline) [])"

section \<open>The animated SVG\<close>

text \<open>
  \<^verbatim>\<open>generateAnimatedSvgContent\<close> fills a fixed template; the model keeps what goes into its
  holes. Two values come from outside the arguments: the placeholder of a text element
  without text is made from \<^verbatim>\<open>Math.random()\<close>, and the path id of an element without id
  from \<^verbatim>\<open>Date.now()\<close>. The environment \<open>run_env\<close> gives, for the frame with a given index,
  the string that \<^verbatim>\<open>Math.random().toString(36).substr(2, 5)\<close> yields there and the clock
  reading. Writing the SVG file is left out.
\<close>

record config =
  cfg_width :: rat
  cfg_height :: rat
  frameRate :: rat
  cfg_speed :: jsnum
  outputDir :: string

record run_env =
  random_suffix :: "nat \<Rightarrow> string"
  date_now :: "nat \<Rightarrow> nat"

datatype path_id = TextPathOfId string | TextPathOfClock nat

datatype svg_node =
    ProgressivePath string "path_cmd list" rat rat
  | ProgressivePolygon string "path_cmd list" rat rat "(rat \<times> rat) option" rat
  | ProgressiveText string path_id "path_cmd list" rat rat
  | ProgressiveFreedraw "(rat \<times> rat) list" rat rat
  | GenericAnimation string rat rat rat rat

definition generateSvgPath :: "element \<Rightarrow> rat \<Rightarrow> rat \<Rightarrow> path_cmd list" where
  "generateSvgPath element x y =
     (let w = field_or (width element) 100;
          h = field_or (height element) 100
      in if el_type element = ''line'' then [MoveTo x y, LineTo (x + w) (y + h)]
         else if el_type element = ''arrow'' then
           [MoveTo x y, LineTo (x + w) (y + h), MoveTo (x + w - 20) (y + h - 10),
            LineTo (x + w) (y + h), LineTo (x + w - 10) (y + h - 20)]
         else if el_type element = ''ellipse'' then
           (let rx = w / 2; ry = h / 2; cx = x + rx; cy = y + ry
            in [MoveTo (cx + rx) cy, ArcTo rx ry (cx - rx) cy, ArcTo rx ry (cx + rx) cy])
         else [MoveTo x y, LineTo (x + w) (y + h)])"

definition createProgressivePathSvg :: "element \<Rightarrow> animation \<Rightarrow> rat \<Rightarrow> rat \<Rightarrow> svg_node" where
  "createProgressivePathSvg element frameData x y =
     ProgressivePath (el_type element) (generateSvgPath element x y)
       (startMs frameData / 1000) (durationMs frameData / 1000)"

definition createProgressivePolygonSvg ::
  "element \<Rightarrow> animation \<Rightarrow> rat \<Rightarrow> rat \<Rightarrow> svg_node" where
  "createProgressivePolygonSvg element frameData x y =
     (let w = field_or (width element) 150;
          h = field_or (height element) 100;
          startSec = startMs frameData / 1000;
          strokeDur = field_or (strokeDuration frameData) (durationMs frameData * (75 / 100))
                        / 1000;
          fillDur = (if fillAnimation frameData \<noteq> None
                     then durationMs frameData * (25 / 100) / 1000 else 0);
          fillStart = startSec + strokeDur;
          polygonPath =
            (if el_type element = ''rectangle''
             then [MoveTo x y, LineTo (x + w) y, LineTo (x + w) (y + h), LineTo x (y + h),
                   ClosePath]
             else (let cx = x + w / 2; cy = y + h / 2
                   in [MoveTo cx y, LineTo (x + w) cy, LineTo cx (y + h), LineTo x cy,
                       ClosePath]))
      in ProgressivePolygon (el_type element) polygonPath startSec strokeDur
           (if fillAnimation frameData \<noteq> None then Some (fillStart, fillDur) else None)
           ((w + h) * 2))"

definition createProgressiveTextSvg ::
  "run_env \<Rightarrow> element \<Rightarrow> animation \<Rightarrow> nat \<Rightarrow> rat \<Rightarrow> rat \<Rightarrow> svg_node" where
  "createProgressiveTextSvg env element frameData idx x y =
     (let txt = str_or (el_text element) (''Text '' @ random_suffix env idx);
          tw = field_or (textWidth frameData) (of_nat (length txt) * 12);
          pathId = (if el_id element \<noteq> [] then TextPathOfId (el_id element)
                    else TextPathOfClock (date_now env idx))
      in ProgressiveText txt pathId [MoveTo x y, LineTo (x + tw) y]
           (startMs frameData / 1000) (durationMs frameData / 1000))"

definition createProgressiveFreedrawSvg ::
  "element \<Rightarrow> animation \<Rightarrow> rat \<Rightarrow> rat \<Rightarrow> svg_node" where
  "createProgressiveFreedrawSvg element frameData x y =
     (let pts = (case points element of
                   None \<Rightarrow> [(0, 0), (50, 50), (100, 0), (150, 75)]
                 | Some ps \<Rightarrow> ps)
      in ProgressiveFreedraw (map (\<lambda>(px, py). (x + px, y + py)) pts)
           (startMs frameData / 1000) (durationMs frameData / 1000))"

definition createGenericAnimationSvg ::
  "element \<Rightarrow> animation \<Rightarrow> rat \<Rightarrow> rat \<Rightarrow> svg_node" where
  "createGenericAnimationSvg element frameData x y =
     GenericAnimation (el_type element) (x + 50) (y + 50)
       (startMs frameData / 1000) (durationMs frameData / 1000)"

definition createSvgElement :: "run_env \<Rightarrow> element \<Rightarrow> animation \<Rightarrow> nat \<Rightarrow> svg_node" where
  "createSvgElement env element frameData idx =
     (let x = field_or (el_x element) (100 + of_nat idx * 200);
          y = field_or (el_y element) (200 + of_nat idx * 100)
      in if an_type frameData = ''path-animation''
           then createProgressivePathSvg element frameData x y
         else if an_type frameData = ''polygon-animation''
           then createProgressivePolygonSvg element frameData x y
         else if an_type frameData = ''text-animation''
           then createProgressiveTextSvg env element frameData idx x y
         else if an_type frameData = ''freedraw-animation''
           then createProgressiveFreedrawSvg element frameData x y
         else createGenericAnimationSvg element frameData x y)"

fun svg_elements :: "run_env \<Rightarrow> animation list \<Rightarrow> nat \<Rightarrow> svg_node list" where
  "svg_elements env [] idx = []"
| "svg_elements env (frameData # rest) idx =
     createSvgElement env (an_element frameData) frameData idx
     # svg_elements env rest (idx + 1)"

record svg_content =
  svg_width :: rat
  svg_height :: rat
  svg_nodes :: "svg_node list"

definition generateAnimatedSvgContent ::
  "config \<Rightarrow> run_env \<Rightarrow> animation list \<Rightarrow> svg_content" where
  "generateAnimatedSvgContent cfg env frames =
     \<lparr>svg_width = cfg_width cfg, svg_height = cfg_height cfg,
      svg_nodes = svg_elements env frames 0\<rparr>"

text \<open>
  The value of \<^verbatim>\<open>createAnimatedSvg\<close>; its \<^verbatim>\<open>path\<close> is the output directory joined with
  \<^verbatim>\<open>'../animated.svg'\<close>, kept as the two parts.
\<close>

record svg_data =
  sd_path :: "string \<times> string"
  sd_content :: svg_content
  sd_width :: rat
  sd_height :: rat
  sd_elements :: "element list"
  sd_animations :: "animation list"

definition createAnimatedSvg ::
  "config \<Rightarrow> run_env \<Rightarrow> element list \<Rightarrow> animation list \<Rightarrow> svg_data" where
  "createAnimatedSvg cfg env els frames =
     \<lparr>sd_path = (outputDir cfg, ''../animated.svg''),
      sd_content = generateAnimatedSvgContent cfg env frames,
      sd_width = cfg_width cfg, sd_height = cfg_height cfg,
      sd_elements = els, sd_animations = frames\<rparr>"

text \<open>
  The value of \<^verbatim>\<open>generateWithExcalidrawAnimate\<close>, without its constant fields (\<^verbatim>\<open>type\<close>,
  \<^verbatim>\<open>features\<close>, \<^verbatim>\<open>message\<close> and the flags): the timing computed by \<open>allocate\<close> and the SVG
  made from its frames.
\<close>

record animation_result =
  svgData :: svg_data
  res_frames :: "animation list"
  res_frameRate :: rat
  res_duration :: rat
  res_outputDir :: string
  res_sortedElements :: "element list"

definition generateWithExcalidrawAnimate ::
  "config \<Rightarrow> run_env \<Rightarrow> element list \<Rightarrow> js_error + animation_result" where
  "generateWithExcalidrawAnimate cfg env els =
     (case allocate els of
        Inl err \<Rightarrow> Inl err
      | Inr t \<Rightarrow>
          Inr \<lparr>svgData = createAnimatedSvg cfg env els (tl_frames t),
               res_frames = tl_frames t, res_frameRate = frameRate cfg,
               res_duration = tl_duration t, res_outputDir = outputDir cfg,
               res_sortedElements = tl_sortedElements t\<rparr>)"

section \<open>The generator, its fallback, and the synchronized pipeline\<close>

text \<open>
  \<^verbatim>\<open>generateFrameByFrame\<close> is the fallback of the generator. The number of its frames is
  \<^verbatim>\<open>Math.ceil((animationDuration / 1000) * frameRate / speed)\<close>, read from the configuration
  of the animator. Every turn of its loop renders one frame in a browser and writes it
  to a file, which is left out; the value keeps the path of each frame as the output
  directory and the number of the frame. When the number of frames is \<^verbatim>\<open>Infinity\<close> the loop
  does not end, which is the value \<open>None\<close>; when it is \<^verbatim>\<open>NaN\<close> or negative the loop is not
  entered.
\<close>

fun Math_ceil :: "jsnum \<Rightarrow> jsnum" where
  "Math_ceil (Fin r) = Fin (of_int \<lceil>r\<rceil>)"
| "Math_ceil PosInf = PosInf"
| "Math_ceil NegInf = NegInf"
| "Math_ceil NaN = NaN"

type_synonym frame_path = "string \<times> nat"

function frame_loop :: "config \<Rightarrow> rat \<Rightarrow> nat \<Rightarrow> frame_path list \<Rightarrow> frame_path list" where
  "frame_loop cfg totalFrames frame frames =
     (if of_nat frame < totalFrames
      then frame_loop cfg totalFrames (frame + 1) (frames @ [(outputDir cfg, frame)])
      else frames)"
  by pat_completeness auto

termination
proof (relation "measure (\<lambda>(cfg, totalFrames, frame, frames). nat \<lceil>totalFrames\<rceil> - frame)")
  fix cfg :: config and totalFrames :: rat and frame :: nat and frames :: "frame_path list"
  assume "of_nat frame < totalFrames"
  then have "of_int (int frame) < totalFrames" by simp
  then have "int frame < \<lceil>totalFrames\<rceil>" by (simp only: less_ceiling_iff)
  then show "((cfg, totalFrames, frame + 1, frames @ [(outputDir cfg, frame)]),
              (cfg, totalFrames, frame, frames))
               \<in> measure (\<lambda>(cfg, totalFrames, frame, frames). nat \<lceil>totalFrames\<rceil> - frame)"
    by simp
qed simp

declare frame_loop.simps [simp del]

record frame_by_frame =
  fb_frames :: "frame_path list"
  fb_frameRate :: rat
  fb_duration :: rat
  fb_outputDir :: string

definition generateFrameByFrame :: "config \<Rightarrow> timestamp list \<Rightarrow> frame_by_frame option" where
  "generateFrameByFrame cfg timestamps =
     (let animationDuration = calculateDuration timestamps;
          totalFrames = Math_ceil (js_div (Fin (animationDuration / 1000 * frameRate cfg))
                                     (cfg_speed cfg));
          result = (\<lambda>frames. \<lparr>fb_frames = frames, fb_frameRate = frameRate cfg,
                                fb_duration = animationDuration,
                                fb_outputDir = outputDir cfg\<rparr>)
      in case totalFrames of
           Fin n \<Rightarrow> Some (result (frame_loop cfg n 0 []))
         | PosInf \<Rightarrow> None
         | NegInf \<Rightarrow> Some (result [])
         | NaN \<Rightarrow> Some (result []))"

text \<open>
  \<^verbatim>\<open>generateAnimation\<close> tries the progressive generator and, when that throws, falls back
  to the frames.
\<close>

datatype generated = Progressive animation_result | FrameByFrame frame_by_frame

definition generateAnimation ::
  "config \<Rightarrow> run_env \<Rightarrow> element list \<Rightarrow> timestamp list \<Rightarrow> generated option" where
  "generateAnimation cfg env els timestamps =
     (case generateWithExcalidrawAnimate cfg env els of
        Inr r \<Rightarrow> Some (Progressive r)
      | Inl excalidrawAnimateError \<Rightarrow>
          map_option FrameByFrame (generateFrameByFrame cfg timestamps))"

definition createDefaultTimestamps :: "element list \<Rightarrow> timestamp list" where
  "createDefaultTimestamps els =
     map (\<lambda>(element, index).
            \<lparr>ts_id = el_id element, ts_created = Some (of_nat index * 500),
             ts_updated = Some ((of_nat index + 1) * 500)\<rparr>)
         (zip els [0 ..< length els])"

text \<open>
  \<^verbatim>\<open>generateSynchronizedAnimation\<close> of the pipeline works on the animator that the pipeline
  holds: with a narration it assigns \<^verbatim>\<open>this.animator.config.speed\<close> before it generates,
  and the assignment \<^verbatim>\<open>this.animator = originalAnimator\<close> at its end puts back the same
  object, its configuration as changed. The model takes the configuration of the animator
  and returns it with the result; the narration is given by its timeline.
\<close>

record sync_segment =
  audioStart :: rat
  audioEnd :: rat
  animationFrames :: animation_sync

record narration_sync =
  ns_timeline :: audio_timeline
  ns_segments :: "sync_segment list"

record synchronized =
  sy_animation :: generated
  narrationSync :: "narration_sync option"

definition generateSynchronizedAnimation ::
  "config \<Rightarrow> run_env \<Rightarrow> element list \<Rightarrow> audio_timeline option
     \<Rightarrow> synchronized option \<times> config" where
  "generateSynchronizedAnimation animator env els narration =
     (case narration of
        None \<Rightarrow>
          (map_option (\<lambda>animation. \<lparr>sy_animation = animation, narrationSync = None\<rparr>)
             (generateAnimation animator env els (createDefaultTimestamps els)),
           animator)
      | Some tline \<Rightarrow>
          (let syncedTimestamps = createSynchronizedTimestamps els tline;
               animator' = animator
                 \<lparr>cfg_speed := calculateAnimationSpeed (length els)
                                 (Fin (totalDuration tline))\<rparr>;
               sync = \<lparr>ns_timeline = tline,
                       ns_segments =
                         map (\<lambda>seg. \<lparr>audioStart = startTime seg, audioEnd = endTime seg,
                                     animationFrames = animationSync seg\<rparr>)
                             (at_segments tline)\<rparr>
           in (map_option (\<lambda>animation. \<lparr>sy_animation = animation,
                                          narrationSync = Some sync\<rparr>)
                 (generateAnimation animator' env els syncedTimestamps),
               animator')))"

section \<open>Vocabulary of the properties\<close>

text \<open>
  The order hint of an element is the number its id encodes for \<^verbatim>\<open>animateOrder\<close>, an
  absent hint counting as 0.
\<close>

definition orderHint :: "element \<Rightarrow> int" where
  "orderHint e = extractNumberFromElement e ''animateOrder''"

text \<open>
  The order as the claim words it: two elements whose hints are both 0 are ordered by
  \<open>createdAt\<close>, the \<^verbatim>\<open>created\<close> field, which falls back to the creation nonce when the
  element has none; any other pair is ordered by hint.
\<close>

definition createdAt :: "element \<Rightarrow> rat" where
  "createdAt e =
     (case created e of
        Some t \<Rightarrow> t
      | None \<Rightarrow> (case versionNonce e of Some n \<Rightarrow> n | None \<Rightarrow> 0))"

definition claimed_before_eq :: "element \<Rightarrow> element \<Rightarrow> bool" where
  "claimed_before_eq a b =
     (if orderHint a = 0 \<and> orderHint b = 0 then createdAt a \<le> createdAt b
      else orderHint a \<le> orderHint b)"

text \<open>
  The order of the amended claim: the creation time of an element is its \<^verbatim>\<open>created\<close>
  field unless that is absent or 0, then its creation nonce, and 0 when it has neither.
\<close>

definition creation_time :: "element \<Rightarrow> rat" where
  "creation_time e =
     (case created e of
        Some t \<Rightarrow> if t \<noteq> 0 then t
                  else (case versionNonce e of Some n \<Rightarrow> n | None \<Rightarrow> 0)
      | None \<Rightarrow> (case versionNonce e of Some n \<Rightarrow> n | None \<Rightarrow> 0))"

definition resolved_before_eq :: "element \<Rightarrow> element \<Rightarrow> bool" where
  "resolved_before_eq a b =
     (if orderHint a = 0 \<and> orderHint b = 0 then creation_time a \<le> creation_time b
      else orderHint a \<le> orderHint b)"

definition resolved_tie :: "element \<Rightarrow> element \<Rightarrow> bool" where
  "resolved_tie a b = (resolved_before_eq a b \<and> resolved_before_eq b a)"

text \<open>
  The fill colour as the claim words it: the element has a background colour, and it is
  neither \<^verbatim>\<open>"none"\<close> nor \<^verbatim>\<open>"transparent"\<close>.
\<close>

definition has_fill_color :: "element \<Rightarrow> bool" where
  "has_fill_color e =
     (case backgroundColor e of
        None \<Rightarrow> False
      | Some c \<Rightarrow> c \<noteq> [] \<and> c \<noteq> ''none'' \<and> c \<noteq> ''transparent'')"

text \<open>
  The background of the amended claims: \<^verbatim>\<open>backgroundColor\<close> is set to a non-empty string
  other than \<^verbatim>\<open>'transparent'\<close>, the one value by which Excalidraw says "no fill".
\<close>

definition background_set :: "element \<Rightarrow> bool" where
  "background_set e = (has_fill_color e \<or> backgroundColor e = Some ''none'')"

text \<open>
  The elements that \<^verbatim>\<open>getElementAnimationType\<close> sends to \<^verbatim>\<open>animatePath\<close> or
  \<^verbatim>\<open>animateFreedraw\<close>: ellipses, freehand drawings, and the lines and arrows that have a
  roundness and no background set.
\<close>

definition animated_as_path :: "element \<Rightarrow> bool" where
  "animated_as_path e =
     (el_type e = ''ellipse'' \<or> el_type e = ''freedraw''
      \<or> ((el_type e = ''line'' \<or> el_type e = ''arrow'')
           \<and> roundness e \<and> \<not> background_set e))"

text \<open>The speed lies in the closed interval from 0.5 to 2.\<close>

definition speed_in_bounds :: "jsnum \<Rightarrow> bool" where
  "speed_in_bounds v = (js_le (Fin (1 / 2)) v \<and> js_le v (Fin 2))"

text \<open>The length of the slot a timestamp gives its element.\<close>

definition slot_length :: "timestamp \<Rightarrow> rat" where
  "slot_length t = the (ts_updated t) - the (ts_created t)"

text \<open>
  The equal shares of one segment, as the specification words them: the \<open>k\<close>-th of the
  \<open>n\<close> elements of a segment gets the \<open>k\<close>-th of \<open>n\<close> equal parts of the segment's duration.
\<close>

definition equal_shares :: "timeline_segment \<Rightarrow> timestamp list" where
  "equal_shares seg =
     (let es = sync_elements (animationSync seg);
          share = seg_duration seg / of_nat (length es)
      in map (\<lambda>k. \<lparr>ts_id = el_id (es ! k),
                     ts_created = Some (startTime seg + share * of_nat k),
                     ts_updated = Some (startTime seg + share * of_nat k + share)\<rparr>)
           [0..<length es])"

text \<open>The distinct entries of a list, each at its first occurrence.\<close>

fun first_occurrences :: "'a list \<Rightarrow> 'a list" where
  "first_occurrences [] = []"
| "first_occurrences (x # xs) = x # filter (\<lambda>y. y \<noteq> x) (first_occurrences xs)"

text \<open>
  The running narration cursor: each segment starts where the cursor stands, and the
  cursor then moves on by the segment's duration and a pause of 500 ms.
\<close>

fun cursor_starts :: "rat \<Rightarrow> rat list \<Rightarrow> rat list" where
  "cursor_starts t [] = []"
| "cursor_starts t (d # ds) = t # cursor_starts (t + d + 500) ds"

text \<open>
  The text elements of a drawing all carry a text and an id; then nothing in the SVG
  depends on the run.
\<close>

definition texts_given :: "element list \<Rightarrow> bool" where
  "texts_given els =
     list_all (\<lambda>e. el_type e \<noteq> ''text'' \<or> (str_or (el_text e) [] \<noteq> [] \<and> el_id e \<noteq> [])) els"

text \<open>
  The timing output of a run: the sorted elements, the descriptors and the total duration
  of the progressive generator, or the whole value of the fallback, together with the
  narration metadata; everything but the SVG.
\<close>

definition timing_output ::
  "synchronized \<Rightarrow>
     ((element list \<times> animation list \<times> rat) + frame_by_frame) \<times> narration_sync option" where
  "timing_output s =
     (case sy_animation s of
        Progressive r \<Rightarrow> Inl (res_sortedElements r, res_frames r, res_duration r)
      | FrameByFrame f \<Rightarrow> Inr f,
      narrationSync s)"


section \<open>The schedule, as the specification words it\<close>

text \<open>
  The primary group of an element is the first of its group ids; the members of a group
  are the elements of the resolved order that have it as their primary group, in that
  order.
\<close>

definition primary_group :: "element \<Rightarrow> string option" where
  "primary_group e = (case groupIds e of [] \<Rightarrow> None | g # _ \<Rightarrow> Some g)"

definition group_members :: "element list \<Rightarrow> string \<Rightarrow> element list" where
  "group_members ordered g = filter (\<lambda>e. primary_group e = Some g) ordered"

text \<open>The share of a group member: the group duration over the member count plus one.\<close>

definition group_share :: "element list \<Rightarrow> string \<Rightarrow> rat" where
  "group_share ordered g = 5000 / (of_nat (length (group_members ordered g)) + 1)"

text \<open>
  The time slots in scheduling order. An ungrouped element gets its individual duration:
  the duration its id encodes, else 500 ms. The first member reached of a group that is
  not yet scheduled brings in all members of the group, one share each; members of a
  scheduled group bring in nothing.
\<close>

fun time_slots :: "element list \<Rightarrow> string set \<Rightarrow> element list \<Rightarrow> (element \<times> rat) list" where
  "time_slots ordered scheduled [] = []"
| "time_slots ordered scheduled (e # rest) =
     (case primary_group e of
        None \<Rightarrow>
          (e, if extractNumberFromElement e ''animateDuration'' = 0 then 500
              else of_int (extractNumberFromElement e ''animateDuration''))
          # time_slots ordered scheduled rest
      | Some g \<Rightarrow>
          if g \<in> scheduled then time_slots ordered scheduled rest
          else map (\<lambda>m. (m, group_share ordered g)) (group_members ordered g)
               @ time_slots ordered (insert g scheduled) rest)"

text \<open>The descriptors of a list of slots laid end to end from a cursor position.\<close>

fun lay_out :: "rat \<Rightarrow> (element \<times> rat) list \<Rightarrow> animation list" where
  "lay_out c [] = []"
| "lay_out c ((e, d) # slots) = createElementAnimation e c d # lay_out (c + d) slots"


section \<open>Example drawings\<close>

text \<open>
  An element with the given id, type and group ids and no other field set; the example
  drawings below are built from it.
\<close>

definition plain_element :: "string \<Rightarrow> string \<Rightarrow> string list \<Rightarrow> element" where
  "plain_element i t g =
     \<lparr>el_id = i, el_type = t, groupIds = g, created = None, versionNonce = None,
      backgroundColor = None, roundness = False, el_x = None, el_y = None, width = None,
      height = None, points = None, el_text = None, fontSize = None\<rparr>"

definition filled_rectangle :: element where
  "filled_rectangle =
     (plain_element ''r1'' ''rectangle'' [])\<lparr>backgroundColor := Some ''#ffc9c9''\<rparr>"

definition straight_line :: element where
  "straight_line = (plain_element ''l1'' ''line'' [])\<lparr>width := Some 300, height := Some 40\<rparr>"

definition round_arrow :: element where
  "round_arrow =
     (plain_element ''a1'' ''arrow'' [])\<lparr>roundness := True, el_x := Some 10, el_y := Some 20,
        width := Some 300, height := Some 40\<rparr>"

definition filled_round_line :: element where
  "filled_round_line =
     (plain_element ''l2'' ''line'' [])\<lparr>roundness := True, backgroundColor := Some ''#ffc9c9''\<rparr>"

definition round_ellipse :: element where
  "round_ellipse = (plain_element ''c1'' ''ellipse'' [])\<lparr>width := Some 80, height := Some 60\<rparr>"





text \<open>
  A narrated drawing: the first segment (4000 ms) covers \<open>A\<close> and \<open>B\<close>, the second
  (2000 ms) covers \<open>C\<close>, and no segment covers \<open>D\<close>.
\<close>

definition narrated_drawing :: "element list" where
  "narrated_drawing =
     [plain_element ''A'' ''rectangle'' [], plain_element ''B'' ''ellipse'' [],
      plain_element ''C'' ''text'' [], plain_element ''D'' ''line'' []]"

definition narration_audio :: "audio_segment list" where
  "narration_audio =
     [\<lparr>au_id = ''group-0'', au_path = ''segment-0.wav'', au_text = ''First'',
       au_voice = ''af_heart'', au_duration = 4000\<rparr>,
      \<lparr>au_id = ''group-1'', au_path = ''segment-1.wav'', au_text = ''Second'',
       au_voice = ''af_heart'', au_duration = 2000\<rparr>]"

definition narration_script :: "script_segment list" where
  "narration_script =
     [\<lparr>ss_elements = take 2 narrated_drawing\<rparr>,
      \<lparr>ss_elements = [narrated_drawing ! 2]\<rparr>]"

definition narration_timeline :: audio_timeline where
  "narration_timeline =
     \<lparr>at_segments =
        [\<lparr>seg_id = ''group-0'', audioPath = ''segment-0.wav'', seg_text = ''First'',
          seg_voice = ''af_heart'', startTime = 0, endTime = 4000, seg_duration = 4000,
          animationSync = \<lparr>sync_elements = take 2 narrated_drawing, startFrame = 0,
                           endFrame = 120\<rparr>\<rparr>,
         \<lparr>seg_id = ''group-1'', audioPath = ''segment-1.wav'', seg_text = ''Second'',
          seg_voice = ''af_heart'', startTime = 4500, endTime = 6500, seg_duration = 2000,
          animationSync = \<lparr>sync_elements = [narrated_drawing ! 2], startFrame = 135,
                           endFrame = 195\<rparr>\<rparr>],
      totalDuration = 7000\<rparr>"

text \<open>
  A text element without text, a configuration, and two runs that differ in what
  \<^verbatim>\<open>Math.random()\<close> gives.
\<close>

definition untitled_text :: element where
  "untitled_text = plain_element ''t1'' ''text'' []"

definition titled_text :: element where
  "titled_text = (plain_element ''t2'' ''text'' [])\<lparr>el_text := Some ''Hello''\<rparr>"

definition hd_config :: config where
  "hd_config = \<lparr>cfg_width = 1920, cfg_height = 1080, frameRate = 30, cfg_speed = Fin 1,
                 outputDir = ''./output/frames''\<rparr>"

definition first_run :: run_env where
  "first_run = \<lparr>random_suffix = (\<lambda>i. ''k3x9q''), date_now = (\<lambda>i. 1700000000000)\<rparr>"

definition second_run :: run_env where
  "second_run = \<lparr>random_suffix = (\<lambda>i. ''p0m4z''), date_now = (\<lambda>i. 1700000000007)\<rparr>"

text \<open>
  A rectangle whose group id is a key that a plain object inherits, so that the
  progressive generator throws and the fallback runs.
\<close>

definition inherited_group_box :: element where
  "inherited_group_box = plain_element ''k1'' ''rectangle'' [''constructor'']"

text \<open>
  Three elements given in the order \<open>b\<close>, \<open>a\<close>, \<open>c\<close>: the ids of \<open>b\<close> and \<open>a\<close> encode the
  orders 2 and 1, that of \<open>c\<close> none.
\<close>

definition hinted_b :: element where
  "hinted_b = plain_element ''b-animateOrder:2'' ''text'' []"

definition hinted_a :: element where
  "hinted_a = plain_element ''a-animateOrder:1'' ''text'' []"

definition hinted_c :: element where
  "hinted_c = plain_element ''c'' ''text'' []"

text \<open>
  Two elements without order hint: \<open>x\<close> was created at time 0 and has the nonce 5, \<open>y\<close>
  was created at time 3.
\<close>

definition created_at_zero :: element where
  "created_at_zero = (plain_element ''x'' ''text'' [])\<lparr>created := Some 0, versionNonce := Some 5\<rparr>"

definition created_at_three :: element where
  "created_at_three = (plain_element ''y'' ''text'' [])\<lparr>created := Some 3\<rparr>"

text \<open>
  A rectangle whose background colour is the string \<^verbatim>\<open>"none"\<close>, and a rectangle, alone in
  its group, whose id encodes a duration of 9000 ms.
\<close>

definition none_rectangle :: element where
  "none_rectangle = (plain_element ''r2'' ''rectangle'' [])\<lparr>backgroundColor := Some ''none''\<rparr>"

definition overridden_rectangle :: element where
  "overridden_rectangle = plain_element ''r3-animateDuration:9000'' ''rectangle'' [''g1'']"

section \<open>Properties of the order resolver\<close>

lemma elementTime_creation_time: "elementTime e = creation_time e"
  by (simp add: elementTime_def creation_time_def num_or_def split: option.splits)

lemma daiShiCompare_le: "daiShiCompare a b \<le> 0 \<longleftrightarrow> resolved_before_eq a b"
  by (simp add: daiShiCompare_def resolved_before_eq_def orderHint_def Let_def
      elementTime_creation_time)

lemma resolved_before_eq_total: "resolved_before_eq a b \<or> resolved_before_eq b a"
  by (auto simp: resolved_before_eq_def)

lemma resolved_before_eq_trans:
  "resolved_before_eq a b \<Longrightarrow> resolved_before_eq b c \<Longrightarrow> resolved_before_eq a c"
  by (auto simp: resolved_before_eq_def split: if_splits)

lemma daiShiCompare_trans:
  "daiShiCompare a b \<le> 0 \<Longrightarrow> daiShiCompare b c \<le> 0 \<Longrightarrow> daiShiCompare a c \<le> 0"
  using resolved_before_eq_trans by (simp add: daiShiCompare_le)

lemma mset_insort_cmp: "mset (insort_cmp cmp x ys) = add_mset x (mset ys)"
  by (induction ys) auto

lemma set_insort_cmp: "set (insort_cmp cmp x ys) = insert x (set ys)"
  by (induction ys) auto

lemma mset_js_sort: "mset (js_sort cmp xs) = mset xs"
  by (induction xs) (auto simp: js_sort_def mset_insort_cmp)

lemma sorted_insort_cmp:
  "sorted_wrt resolved_before_eq ys \<Longrightarrow>
     sorted_wrt resolved_before_eq (insort_cmp daiShiCompare x ys)"
proof (induction ys)
  case Nil
  then show ?case by simp
next
  case (Cons y ys)
  show ?case
  proof (cases "daiShiCompare x y \<le> 0")
    case True
    then have xy: "resolved_before_eq x y" by (simp add: daiShiCompare_le)
    have "\<forall>z\<in>set ys. resolved_before_eq x z"
      using Cons.prems xy by (auto intro: resolved_before_eq_trans)
    with True xy Cons.prems show ?thesis by simp
  next
    case False
    then have yx: "resolved_before_eq y x"
      using resolved_before_eq_total [of x y] by (simp add: daiShiCompare_le)
    with False Cons show ?thesis by (auto simp: set_insort_cmp)
  qed
qed

lemma sorted_js_sort: "sorted_wrt resolved_before_eq (js_sort daiShiCompare xs)"
  by (induction xs) (auto simp: js_sort_def sorted_insort_cmp)

lemma resolved_tie_before:
  "resolved_tie a x \<Longrightarrow> resolved_tie a y \<Longrightarrow> resolved_before_eq x y"
  unfolding resolved_tie_def by (blast intro: resolved_before_eq_trans)

lemma filter_tie_insort_cmp:
  "filter (resolved_tie a) (insort_cmp daiShiCompare x ys) =
     (if resolved_tie a x then x # filter (resolved_tie a) ys else filter (resolved_tie a) ys)"
proof (induction ys)
  case Nil
  then show ?case by simp
next
  case (Cons y ys)
  show ?case
  proof (cases "daiShiCompare x y \<le> 0")
    case True
    then show ?thesis by simp
  next
    case False
    then have "\<not> resolved_before_eq x y" by (simp add: daiShiCompare_le)
    then have "\<not> (resolved_tie a x \<and> resolved_tie a y)"
      using resolved_tie_before by blast
    with False Cons.IH show ?thesis by auto
  qed
qed

lemma filter_tie_js_sort:
  "filter (resolved_tie a) (js_sort daiShiCompare xs) = filter (resolved_tie a) xs"
  by (induction xs) (auto simp: js_sort_def filter_tie_insort_cmp)

lemma resolved_tie_refl: "resolved_tie a a"
  using resolved_before_eq_total [of a a] by (simp add: resolved_tie_def)

lemma stable_sorted_unique:
  assumes "mset ys = mset zs"
      and "sorted_wrt resolved_before_eq ys" and "sorted_wrt resolved_before_eq zs"
      and "\<forall>a. filter (resolved_tie a) ys = filter (resolved_tie a) zs"
  shows "ys = zs"
  using assms
proof (induction ys arbitrary: zs)
  case Nil
  then show ?case by simp
next
  case (Cons y ys)
  from Cons.prems(1) obtain z zs' where zs: "zs = z # zs'"
    by (cases zs) auto
  have "y \<in> set zs"
    using Cons.prems(1) by (metis list.set_intros(1) set_mset_mset)
  with zs Cons.prems(3) have zy: "resolved_before_eq z y"
    using resolved_before_eq_total [of y y] by auto
  have "z \<in> set (y # ys)"
    using Cons.prems(1) zs by (metis list.set_intros(1) set_mset_mset)
  with Cons.prems(2) have yz: "resolved_before_eq y z"
    using resolved_before_eq_total [of y y] by auto
  from Cons.prems(4) have "filter (resolved_tie y) (y # ys) = filter (resolved_tie y) (z # zs')"
    by (simp add: zs)
  with yz zy have yz_eq: "y = z"
    by (simp add: resolved_tie_refl resolved_tie_def)
  have "filter (resolved_tie a) ys = filter (resolved_tie a) zs'" for a
    using Cons.prems(4) [rule_format, of a] by (simp add: zs yz_eq split: if_splits)
  moreover have "mset ys = mset zs'"
    using Cons.prems(1) by (simp add: zs yz_eq)
  moreover have "sorted_wrt resolved_before_eq ys" "sorted_wrt resolved_before_eq zs'"
    using Cons.prems(2,3) by (simp_all add: zs)
  ultimately have "ys = zs'"
    using Cons.IH by blast
  then show ?case by (simp add: zs yz_eq)
qed

lemma hinted_orders:
  "orderHint hinted_b = 2" "orderHint hinted_a = 1" "orderHint hinted_c = 0"
  by (simp_all add: orderHint_def hinted_a_def hinted_b_def hinted_c_def
      extractNumberFromElement_def plain_element_def match_here_def match_capture_def
      is_digit_def js_Number_def digits_value_def digit_val_def num_or_def)

lemma created_orders:
  "orderHint created_at_zero = 0" "orderHint created_at_three = 0"
  by (simp_all add: orderHint_def created_at_zero_def created_at_three_def
      extractNumberFromElement_def plain_element_def match_here_def)

text \<open>
  Claim C5, as stated, fails: neither \<open>x\<close> nor \<open>y\<close> has an order hint and \<open>x\<close> was
  created first, at time 0, yet the resolver puts \<open>y\<close> before \<open>x\<close>: it reads a \<^verbatim>\<open>created\<close>
  of 0 as absent and takes the nonce 5 of \<open>x\<close> in its place.
\<close>

theorem created_at_zero_sorts_by_nonce:
  "orderHint created_at_zero = 0 \<and> orderHint created_at_three = 0
   \<and> createdAt created_at_zero = 0 \<and> createdAt created_at_three = 3
   \<and> sortElementsByDaiShiOrder [created_at_zero, created_at_three]
       = [created_at_three, created_at_zero]
   \<and> \<not> sorted_wrt claimed_before_eq
         (sortElementsByDaiShiOrder [created_at_zero, created_at_three])"
proof -
  have t: "elementTime created_at_zero = 5" "elementTime created_at_three = 3"
    by (simp_all add: elementTime_def created_at_zero_def created_at_three_def
        plain_element_def num_or_def)
  have c: "createdAt created_at_zero = 0" "createdAt created_at_three = 3"
    by (simp_all add: createdAt_def created_at_zero_def created_at_three_def
        plain_element_def)
  have s: "sortElementsByDaiShiOrder [created_at_zero, created_at_three]
             = [created_at_three, created_at_zero]"
    using created_orders t
    by (simp add: sortElementsByDaiShiOrder_def js_sort_def daiShiCompare_def orderHint_def)
  have "\<not> claimed_before_eq created_at_three created_at_zero"
    by (simp add: claimed_before_eq_def created_orders c)
  with created_orders c s show ?thesis by simp
qed

text \<open>
  Claim C5, amended: the resolver returns a rearrangement of its input in which any two
  elements stand in this order: when the hints of both are zero or absent, by creation
  time, which for an element is its \<^verbatim>\<open>created\<close> field unless that is absent or 0, then
  its creation nonce, and 0 when it has neither; otherwise by hint, an absent hint
  counting as 0. Elements that tie under that order keep their original array positions
  relative to each other. These three properties leave no choice: the result is the only
  list that has them. The input list itself is not changed: the function returns a new
  list.
\<close>

theorem order_resolver_total_order:
  "mset (sortElementsByDaiShiOrder es) = mset es
   \<and> sorted_wrt resolved_before_eq (sortElementsByDaiShiOrder es)
   \<and> (\<forall>a. filter (resolved_tie a) (sortElementsByDaiShiOrder es) = filter (resolved_tie a) es)
   \<and> (\<forall>ys. mset ys = mset es \<and> sorted_wrt resolved_before_eq ys
             \<and> (\<forall>a. filter (resolved_tie a) ys = filter (resolved_tie a) es)
          \<longrightarrow> ys = sortElementsByDaiShiOrder es)"
proof -
  let ?r = "sortElementsByDaiShiOrder es"
  have r: "mset ?r = mset es" "sorted_wrt resolved_before_eq ?r"
    "\<forall>a. filter (resolved_tie a) ?r = filter (resolved_tie a) es"
    by (simp_all add: sortElementsByDaiShiOrder_def mset_js_sort sorted_js_sort
        filter_tie_js_sort)
  have "ys = ?r"
    if "mset ys = mset es" "sorted_wrt resolved_before_eq ys"
      "\<forall>a. filter (resolved_tie a) ys = filter (resolved_tie a) es" for ys
    using that r by (intro stable_sorted_unique) simp_all
  with r show ?thesis by blast
qed

theorem order_resolver_total_order_witness:
  "mset [hinted_c, hinted_a, hinted_b] = mset [hinted_b, hinted_a, hinted_c]
   \<and> sorted_wrt resolved_before_eq [hinted_c, hinted_a, hinted_b]
   \<and> (\<forall>x. filter (resolved_tie x) [hinted_c, hinted_a, hinted_b]
            = filter (resolved_tie x) [hinted_b, hinted_a, hinted_c])
   \<and> sortElementsByDaiShiOrder [hinted_b, hinted_a, hinted_c]
       = [hinted_c, hinted_a, hinted_b]"
proof -
  have le: "resolved_before_eq hinted_c hinted_a" "resolved_before_eq hinted_a hinted_b"
    "resolved_before_eq hinted_c hinted_b"
    and nle: "\<not> resolved_before_eq hinted_a hinted_c" "\<not> resolved_before_eq hinted_b hinted_a"
    "\<not> resolved_before_eq hinted_b hinted_c"
    by (simp_all add: resolved_before_eq_def hinted_orders)
  have perm: "mset [hinted_c, hinted_a, hinted_b] = mset [hinted_b, hinted_a, hinted_c]"
    by simp
  have srt: "sorted_wrt resolved_before_eq [hinted_c, hinted_a, hinted_b]"
    using le by simp
  have ties: "filter (resolved_tie x) [hinted_c, hinted_a, hinted_b]
                = filter (resolved_tie x) [hinted_b, hinted_a, hinted_c]" for x
    using nle resolved_tie_before [of x hinted_a hinted_c] resolved_tie_before [of x hinted_b hinted_a]
      resolved_tie_before [of x hinted_b hinted_c]
    by auto
  from order_resolver_total_order [of "[hinted_b, hinted_a, hinted_c]"] perm srt ties
  have "[hinted_c, hinted_a, hinted_b] = sortElementsByDaiShiOrder [hinted_b, hinted_a, hinted_c]"
    by blast
  with perm srt ties show ?thesis by simp
qed

section \<open>The empty drawing\<close>

lemma allocate_Nil:
  "allocate [] = Inr \<lparr>tl_sortedElements = [], tl_frames = [], tl_duration = 2000\<rparr>"
  by (simp add: allocate_def sortElementsByDaiShiOrder_def js_sort_def
      createAnimationGroups_def)

text \<open>
  Claim C2, as stated, fails: for the empty element list the allocator does not return a
  total duration of 3000 ms.
\<close>

theorem empty_allocation_not_3000:
  "\<not> (\<exists>t. allocate [] = Inr t \<and> tl_frames t = [] \<and> tl_duration t = 3000)"
  by (simp add: allocate_Nil)

text \<open>
  Claim C2, amended: for the empty element list the allocator returns no animation
  descriptor and a total duration of 2000 ms, the leading margin of 1000 ms plus the
  final margin of 1000 ms. The documented default of 3000 ms is what
  \<^verbatim>\<open>calculateDuration\<close>, the duration of the frame-by-frame fallback, returns for an empty
  list of timestamps.
\<close>

theorem empty_allocation:
  "allocate [] = Inr \<lparr>tl_sortedElements = [], tl_frames = [], tl_duration = 2000\<rparr>
   \<and> calculateDuration [] = 3000"
  by (simp add: allocate_Nil calculateDuration_def)

section \<open>The speed clamp\<close>

lemma speed_in_bounds_Fin: "speed_in_bounds (Fin r) \<longleftrightarrow> 1 / 2 \<le> r \<and> r \<le> 2"
  by (simp add: speed_in_bounds_def)

lemma speed_clamped:
  assumes "narrationDuration \<noteq> NaN"
      and "elementCount \<noteq> 0 \<or> narrationDuration \<noteq> Fin 0"
  shows "speed_in_bounds (calculateAnimationSpeed elementCount narrationDuration)"
  using assms
  by (cases narrationDuration)
     (auto simp: calculateAnimationSpeed_def speed_in_bounds_def Math_min_def Math_max_def
        Let_def)

text \<open>
  Claim C7 fails on the code for an empty drawing narrated for zero milliseconds: the
  quotient \<open>0 / 0\<close> is NaN, which the clamp lets through, so the derived speed is not in
  the interval from 0.5 to 2.
\<close>

theorem speed_of_empty_drawing_is_NaN:
  "calculateAnimationSpeed 0 (Fin 0) = NaN
   \<and> \<not> speed_in_bounds (calculateAnimationSpeed 0 (Fin 0))"
  by (simp add: calculateAnimationSpeed_def speed_in_bounds_def Math_min_def Math_max_def)

section \<open>Narration slots\<close>

lemma segment_loop_eq:
  "segment_loop es idx start dur n ts =
     ts @ map (\<lambda>k. \<lparr>ts_id = el_id (es ! k),
                     ts_created = Some (start + dur / of_nat n * of_nat (idx + k)),
                     ts_updated = Some (start + dur / of_nat n * of_nat (idx + k)
                                        + dur / of_nat n)\<rparr>) [0..<length es]"
proof (induction es arbitrary: idx ts)
  case Nil
  then show ?case by simp
next
  case (Cons e es)
  have shift: "[0..<Suc (length es)] = 0 # map Suc [0..<length es]"
    by (simp add: upt_conv_Cons map_Suc_upt del: upt_Suc)
  show ?case
    by (simp add: Cons.IH shift Let_def comp_def del: upt_Suc)
qed

lemma segment_loop_equal_shares:
  "segment_loop (sync_elements (animationSync seg)) 0 (startTime seg) (seg_duration seg)
     (length (sync_elements (animationSync seg))) ts = ts @ equal_shares seg"
  by (simp add: segment_loop_eq equal_shares_def Let_def)

lemma segments_loop_eq:
  "segments_loop segs ts = ts @ concat (map equal_shares segs)"
  by (induction segs arbitrary: ts) (simp_all add: segment_loop_equal_shares Let_def)

lemma first_occurrences_filter:
  "first_occurrences (filter P xs) = filter P (first_occurrences xs)"
proof (induction xs)
  case Nil
  then show ?case by simp
next
  case (Cons y xs)
  show ?case
  proof (cases "P y")
    case True
    then show ?thesis by (simp add: Cons.IH conj_commute)
  next
    case False
    then have "filter P (filter (\<lambda>z. z \<noteq> y) zs) = filter P zs" for zs
      by (induction zs) auto
    with False show ?thesis by (simp add: Cons.IH)
  qed
qed

lemma remaining_loop_eq:
  "remaining_loop els totalMs ts =
     ts @ map (\<lambda>i. \<lparr>ts_id = i, ts_created = Some totalMs, ts_updated = Some (totalMs + 1000)\<rparr>)
            (first_occurrences (filter (\<lambda>i. i \<notin> ts_id ` set ts) (map el_id els)))"
proof (induction els arbitrary: ts)
  case Nil
  then show ?case by simp
next
  case (Cons e els)
  show ?case
  proof (cases "el_id e \<in> ts_id ` set ts")
    case True
    then obtain t0 where "find (\<lambda>t. ts_id t = el_id e) ts = Some t0"
      by (cases "find (\<lambda>t. ts_id t = el_id e) ts") (auto simp: find_None_iff)
    with True show ?thesis by (simp add: Cons.IH)
  next
    case False
    then have none: "find (\<lambda>t. ts_id t = el_id e) ts = None"
      by (force simp: find_None_iff image_iff)
    have "filter (\<lambda>i. i \<noteq> el_id e \<and> i \<notin> ts_id ` set ts) xs
            = filter (\<lambda>i. i \<noteq> el_id e) (filter (\<lambda>i. i \<notin> ts_id ` set ts) xs)" for xs
      by (induction xs) auto
    with False none show ?thesis
      by (simp add: Cons.IH first_occurrences_filter)
  qed
qed

lemma audio_loop_Inr:
  assumes "audio_loop audio script i t segs = Inr tline"
  shows "map startTime (at_segments tline)
           = map startTime segs @ cursor_starts t (map au_duration audio)
       \<and> map seg_duration (at_segments tline)
           = map seg_duration segs @ map au_duration audio
       \<and> map (\<lambda>s. sync_elements (animationSync s)) (at_segments tline)
           = map (\<lambda>s. sync_elements (animationSync s)) segs
               @ map ss_elements (take (length audio) (drop i script))
       \<and> totalDuration tline = t + (\<Sum>a\<leftarrow>audio. au_duration a + 500)"
  using assms
proof (induction audio arbitrary: i t segs)
  case Nil
  then show ?case by auto
next
  case (Cons a audio)
  from Cons.prems have i: "i < length script"
    by (auto split: if_splits)
  have d: "drop i script = script ! i # drop (Suc i) script"
    using i by (simp add: Cons_nth_drop_Suc)
  from Cons.prems i show ?case
    by (auto simp: Let_def d dest!: Cons.IH)
qed
lemma narration_timeline_eq:
  "createAudioTimeline narration_audio narration_script = Inr narration_timeline"
  by (simp add: createAudioTimeline_def narration_audio_def narration_script_def
      narration_timeline_def Let_def)

lemma narrated_stamps:
  "createSynchronizedTimestamps narrated_drawing narration_timeline =
     [\<lparr>ts_id = ''A'', ts_created = Some 0, ts_updated = Some 2000\<rparr>,
      \<lparr>ts_id = ''B'', ts_created = Some 2000, ts_updated = Some 4000\<rparr>,
      \<lparr>ts_id = ''C'', ts_created = Some 4500, ts_updated = Some 6500\<rparr>,
      \<lparr>ts_id = ''D'', ts_created = Some 7000, ts_updated = Some 8000\<rparr>]"
  by (simp add: createSynchronizedTimestamps_def narration_timeline_def narrated_drawing_def
      plain_element_def Let_def)

text \<open>
  Claim C6, as stated, fails: in the narrated drawing the element \<open>D\<close>, which no segment
  covers, gets a slot of 1000 ms, not the default individual duration of 500 ms.
\<close>

theorem uncovered_slot_is_not_500:
  "createAudioTimeline narration_audio narration_script = Inr narration_timeline
   \<and> last (createSynchronizedTimestamps narrated_drawing narration_timeline)
       = \<lparr>ts_id = ''D'', ts_created = Some 7000, ts_updated = Some 8000\<rparr>
   \<and> slot_length (last (createSynchronizedTimestamps narrated_drawing narration_timeline))
       \<noteq> 500"
  by (simp add: narration_timeline_eq narrated_stamps slot_length_def)

text \<open>
  Claim C6, amended: in the timeline the narrator builds, every segment starts at the
  running narration cursor, which moves on by the segment's audio duration and a pause of
  500 ms, and the total duration is the final position of that cursor. The synchronized
  timestamps are, segment after segment, the equal shares of the segment's duration for
  its elements, followed by one timestamp for every element id that is not among them
  (once per id, in the order of the elements); each of those starts at the total duration
  of the timeline and lasts 1000 ms.
\<close>

theorem narration_slots:
  assumes "createAudioTimeline audio script = Inr tline"
  shows "map startTime (at_segments tline) = cursor_starts 0 (map au_duration audio)
       \<and> map seg_duration (at_segments tline) = map au_duration audio
       \<and> map (\<lambda>s. sync_elements (animationSync s)) (at_segments tline)
           = map ss_elements (take (length audio) script)
       \<and> totalDuration tline = (\<Sum>a\<leftarrow>audio. au_duration a + 500)
       \<and> createSynchronizedTimestamps els tline =
           concat (map equal_shares (at_segments tline)) @
           map (\<lambda>i. \<lparr>ts_id = i, ts_created = Some (totalDuration tline),
                       ts_updated = Some (totalDuration tline + 1000)\<rparr>)
             (first_occurrences
                (filter (\<lambda>i. i \<notin> ts_id ` set (concat (map equal_shares (at_segments tline))))
                   (map el_id els)))"
  using audio_loop_Inr [OF assms [unfolded createAudioTimeline_def]]
  by (simp add: createSynchronizedTimestamps_def remaining_loop_eq segments_loop_eq)

theorem narration_slots_witness:
  "createAudioTimeline narration_audio narration_script = Inr narration_timeline
   \<and> map startTime (at_segments narration_timeline) = [0, 4500]
   \<and> totalDuration narration_timeline = 7000
   \<and> createSynchronizedTimestamps narrated_drawing narration_timeline =
       [\<lparr>ts_id = ''A'', ts_created = Some 0, ts_updated = Some 2000\<rparr>,
        \<lparr>ts_id = ''B'', ts_created = Some 2000, ts_updated = Some 4000\<rparr>,
        \<lparr>ts_id = ''C'', ts_created = Some 4500, ts_updated = Some 6500\<rparr>,
        \<lparr>ts_id = ''D'', ts_created = Some 7000, ts_updated = Some 8000\<rparr>]"
  using narration_slots [OF narration_timeline_eq, of narrated_drawing]
    narration_timeline_eq
  by (simp add: narration_audio_def narration_script_def narration_timeline_def
      narrated_drawing_def plain_element_def equal_shares_def Let_def upt_rec)

section \<open>The allocator follows the schedule\<close>

lemma createElementAnimation_basic:
  "an_element (createElementAnimation e s d) = e"
  "startMs (createElementAnimation e s d) = s"
  "durationMs (createElementAnimation e s d)
     = (if extractNumberFromElement e ''animateDuration'' = 0 then d
        else of_int (extractNumberFromElement e ''animateDuration''))"
  by (simp_all add: createElementAnimation_def Let_def animatePath_def animatePolygon_def
      animateText_def animateFreedraw_def animateImage_def animateGeneric_def
      base_animation_def num_or_def)

lemma animate_group_eq:
  "animate_group ms d st =
     st\<lparr>animatedFrames := animatedFrames st @ lay_out (currentMs st) (map (\<lambda>m. (m, d)) ms),
        currentMs := currentMs st + of_nat (length ms) * d\<rparr>"
proof (induction ms arbitrary: st)
  case Nil
  then show ?case by simp
next
  case (Cons m ms)
  show ?case by (simp add: Cons.IH algebra_simps)
qed

lemma lay_out_append:
  "lay_out c (xs @ ys) = lay_out c xs @ lay_out (c + sum_list (map snd xs)) ys"
  by (induction c xs rule: lay_out.induct) (simp_all add: add.assoc)

lemma group_members_Cons:
  "group_members (e # els) g =
     (if primary_group e = Some g then e # group_members els g else group_members els g)"
  by (simp add: group_members_def)

lemma collect_groups_Inr:
  assumes "collect_groups els tab = Inr tab'"
  shows "tab' g =
     (case tab g of
        None \<Rightarrow> if group_members els g = [] then None
                 else Some \<lparr>elements = group_members els g, processed = False\<rparr>
      | Some g0 \<Rightarrow> Some (g0\<lparr>elements := elements g0 @ group_members els g\<rparr>))"
  using assms
proof (induction els arbitrary: tab)
  case Nil
  then show ?case by (auto simp: group_members_def split: option.splits)
next
  case step: (Cons e els)
  show ?case
  proof (cases "groupIds e")
    case Nil
    with step.prems have "collect_groups els tab = Inr tab'" by simp
    note ih = step.IH [OF this]
    have gm: "group_members (e # els) g = group_members els g"
      using Nil by (simp add: group_members_Cons primary_group_def)
    show ?thesis
      unfolding gm using ih .
  next
    case ids: (Cons h hs)
    with step.prems have nk: "\<not> inherited_key h"
      by (auto split: if_splits)
    let ?g0 = "case tab h of None \<Rightarrow> \<lparr>elements = [], processed = False\<rparr> | Some g0 \<Rightarrow> g0"
    from step.prems ids nk
    have "collect_groups els (tab(h \<mapsto> ?g0\<lparr>elements := elements ?g0 @ [e]\<rparr>)) = Inr tab'"
      by (simp add: Let_def)
    note ih = step.IH [OF this]
    have gm: "group_members (e # els) g
                = (if h = g then e # group_members els g else group_members els g)"
      using ids by (simp add: group_members_Cons primary_group_def)
    show ?thesis
      unfolding gm using ih by (auto split: option.splits)
  qed
qed

lemma createAnimationGroups_Inr:
  assumes "createAnimationGroups els = Inr tab"
  shows "tab g = (if group_members els g = [] then None
                  else Some \<lparr>elements = group_members els g, processed = False\<rparr>)"
  using collect_groups_Inr [OF assms [unfolded createAnimationGroups_def], of g] by simp


lemma sum_slots_group:
  "sum_list (map snd (map (\<lambda>m. (m, d)) ms)) = of_nat (length ms) * d"
  by (induction ms) (simp_all add: algebra_simps)

lemma allocate_element_ungrouped:
  assumes "groupIds e = []"
  shows "allocate_element e st =
     st\<lparr>animatedFrames := animatedFrames st
          @ [createElementAnimation e (currentMs st)
               (if extractNumberFromElement e ''animateDuration'' = 0 then 500
                else of_int (extractNumberFromElement e ''animateDuration''))],
        currentMs := currentMs st
          + (if extractNumberFromElement e ''animateDuration'' = 0 then 500
             else of_int (extractNumberFromElement e ''animateDuration''))\<rparr>"
  using assms by (simp add: allocate_element_def num_or_def individualDur_def Let_def)

lemma allocate_element_scheduled:
  assumes "groupIds e = g # gs" and "groups st g = Some grp" and "processed grp"
  shows "allocate_element e st = st"
  using assms by (simp add: allocate_element_def Let_def)

lemma allocate_element_unscheduled:
  assumes "groupIds e = g # gs" and "groups st g = Some grp" and "\<not> processed grp"
  shows "allocate_element e st =
     st\<lparr>animatedFrames := animatedFrames st
          @ lay_out (currentMs st)
              (map (\<lambda>m. (m, 5000 / (of_nat (length (elements grp)) + 1))) (elements grp)),
        currentMs := currentMs st
          + of_nat (length (elements grp)) * (5000 / (of_nat (length (elements grp)) + 1)),
        groups := (groups st)(g \<mapsto> grp\<lparr>processed := True\<rparr>)\<rparr>"
  using assms
  by (simp add: allocate_element_def Let_def animate_group_eq groupDur_def)

lemma allocate_loop_schedule:
  assumes "\<forall>g. groups st g =
             (if group_members ordered g = [] then None
              else Some \<lparr>elements = group_members ordered g, processed = (g \<in> scheduled)\<rparr>)"
      and "set rest \<subseteq> set ordered"
  shows "animatedFrames (allocate_loop rest st)
           = animatedFrames st @ lay_out (currentMs st) (time_slots ordered scheduled rest)
       \<and> currentMs (allocate_loop rest st)
           = currentMs st + sum_list (map snd (time_slots ordered scheduled rest))"
  using assms
proof (induction rest arbitrary: st scheduled)
  case Nil
  then show ?case by simp
next
  case step: (Cons e rest)
  from step.prems have rest: "set rest \<subseteq> set ordered" and e: "e \<in> set ordered"
    by auto
  show ?case
  proof (cases "groupIds e")
    case Nil
    have pg: "primary_group e = None"
      using Nil by (simp add: primary_group_def)
    let ?st = "allocate_element e st"
    have inv: "\<forall>g. groups ?st g =
             (if group_members ordered g = [] then None
              else Some \<lparr>elements = group_members ordered g, processed = (g \<in> scheduled)\<rparr>)"
      using step.prems(1) by (simp add: allocate_element_ungrouped [OF Nil])
    from step.IH [OF inv rest] show ?thesis
      by (simp add: pg allocate_element_ungrouped [OF Nil] add.assoc)
  next
    case ids: (Cons g gs)
    have pg: "primary_group e = Some g"
      using ids by (simp add: primary_group_def)
    with e have ne: "group_members ordered g \<noteq> []"
      by (auto simp: group_members_def filter_empty_conv)
    with step.prems(1)
    have tab: "groups st g
                 = Some \<lparr>elements = group_members ordered g, processed = (g \<in> scheduled)\<rparr>"
      by simp
    show ?thesis
    proof (cases "g \<in> scheduled")
      case True
      with tab have "allocate_element e st = st"
        by (intro allocate_element_scheduled [OF ids]) auto
      with step.IH [OF step.prems(1) rest] True show ?thesis
        by (simp add: pg)
    next
      case False
      let ?grp = "\<lparr>elements = group_members ordered g, processed = False\<rparr>"
      from tab False have tab': "groups st g = Some ?grp" by simp
      note eq = allocate_element_unscheduled [OF ids tab', simplified]
      let ?st = "allocate_element e st"
      have inv: "\<forall>h. groups ?st h =
             (if group_members ordered h = [] then None
              else Some \<lparr>elements = group_members ordered h,
                         processed = (h \<in> insert g scheduled)\<rparr>)"
        using step.prems(1) ne by (simp add: eq)
      let ?d = "group_share ordered g"
      let ?block = "map (\<lambda>m. (m, ?d)) (group_members ordered g)"
      have slots: "time_slots ordered scheduled (e # rest)
                     = ?block @ time_slots ordered (insert g scheduled) rest"
        using False by (simp add: pg)
      have frames: "animatedFrames ?st = animatedFrames st @ lay_out (currentMs st) ?block"
        by (simp add: eq group_share_def)
      have cur: "currentMs ?st = currentMs st + sum_list (map snd ?block)"
        unfolding sum_slots_group by (simp add: eq group_share_def)
      from step.IH [OF inv rest] show ?thesis
        unfolding allocate_loop.simps slots lay_out_append frames cur
        by (simp add: add.assoc)
    qed
  qed
qed

lemma allocate_schedule:
  assumes "allocate es = Inr t"
  shows "tl_sortedElements t = sortElementsByDaiShiOrder es
       \<and> tl_frames t = lay_out 1000 (time_slots (sortElementsByDaiShiOrder es) {}
                                       (sortElementsByDaiShiOrder es))
       \<and> tl_duration t = 1000 + sum_list (map snd (time_slots (sortElementsByDaiShiOrder es) {}
                                       (sortElementsByDaiShiOrder es))) + 1000"
proof -
  let ?ord = "sortElementsByDaiShiOrder es"
  from assms obtain tab where tab: "createAnimationGroups ?ord = Inr tab"
    by (auto simp: allocate_def Let_def split: sum.splits)
  let ?st = "\<lparr>currentMs = 1000, animatedFrames = [], groups = tab\<rparr>"
  have inv: "\<forall>g. groups ?st g =
             (if group_members ?ord g = [] then None
              else Some \<lparr>elements = group_members ?ord g, processed = (g \<in> {})\<rparr>)"
    using createAnimationGroups_Inr [OF tab] by simp
  from allocate_loop_schedule [OF inv subset_refl] assms tab show ?thesis
    by (auto simp: allocate_def Let_def)
qed

section \<open>Groups are scheduled as blocks\<close>

lemma lay_out_elements: "map an_element (lay_out c slots) = map fst slots"
  by (induction c slots rule: lay_out.induct) (simp_all add: createElementAnimation_basic)

lemma lay_out_hd: "slots \<noteq> [] \<Longrightarrow> startMs (hd (lay_out c slots)) = c"
  by (cases slots) (auto simp: createElementAnimation_basic)



























section \<open>Durations of descriptors\<close>




lemma set_sortElementsByDaiShiOrder: "set (sortElementsByDaiShiOrder es) = set es"
  using mset_js_sort [of daiShiCompare es]
  by (metis sortElementsByDaiShiOrder_def set_mset_mset)


lemma single_ungrouped:
  assumes "groupIds e = []"
  shows "allocate [e] =
     Inr \<lparr>tl_sortedElements = [e],
          tl_frames = [createElementAnimation e 1000
            (if extractNumberFromElement e ''animateDuration'' = 0 then 500
             else of_int (extractNumberFromElement e ''animateDuration''))],
          tl_duration = 1000
            + (if extractNumberFromElement e ''animateDuration'' = 0 then 500
               else of_int (extractNumberFromElement e ''animateDuration'')) + 1000\<rparr>"
  using assms
  by (simp add: allocate_def sortElementsByDaiShiOrder_def js_sort_def
      createAnimationGroups_def allocate_element_ungrouped Let_def)




section \<open>Zero-valued overrides\<close>



section \<open>Polygons: stroke, then fill\<close>

lemma animatePolygon_fields:
  "startMs (animatePolygon e s d) = s"
  "durationMs (animatePolygon e s d) = d"
  "an_type (animatePolygon e s d) = ''polygon-animation''"
  "strokeDuration (animatePolygon e s d) = Some (d * (3 / 4))"
  "fillAnimation (animatePolygon e s d) = animateFillPath e (s + d * (3 / 4)) (d * (1 / 4))"
  "pointer (animatePolygon e s d) = None"
  by (simp_all add: animatePolygon_def base_animation_def Let_def)

lemma background_set_iff:
  "background_set e \<longleftrightarrow> (\<exists>c. backgroundColor e = Some c \<and> c \<noteq> [] \<and> c \<noteq> ''transparent'')"
  by (cases "backgroundColor e") (auto simp: background_set_def has_fill_color_def)

lemma animateFillPath_None: "animateFillPath e s d = None \<longleftrightarrow> \<not> background_set e"
  by (cases "backgroundColor e") (simp_all add: animateFillPath_def background_set_iff)

lemma animateFillPath_ex: "(\<exists>f. animateFillPath e s d = Some f) \<longleftrightarrow> background_set e"
  using animateFillPath_None [of e s d] by auto

lemma animateFillPath_Some:
  "animateFillPath e s d = Some f \<Longrightarrow>
     fa_startMs f = s \<and> fa_durationMs f = d \<and> fa_element f = e"
  by (auto simp: animateFillPath_def split: if_splits)

lemma createElementAnimation_polygon:
  assumes "getElementAnimationType e = ''polygon''"
  shows "createElementAnimation e s d =
     (let a = animatePolygon e s
                (num_or (of_int (extractNumberFromElement e ''animateDuration'')) d)
      in if length (groupIds e) > 0
         then a\<lparr>an_groupIds := Some (groupIds e), groupAnimation := True\<rparr> else a)"
  using assms by (simp add: createElementAnimation_def Let_def)

lemma single_grouped:
  assumes "groupIds e = [g]" and "\<not> inherited_key g"
  shows "allocate [e] =
     Inr \<lparr>tl_sortedElements = [e], tl_frames = [createElementAnimation e 1000 2500],
          tl_duration = 1000 + 2500 + 1000\<rparr>"
  using assms
  by (simp add: allocate_def sortElementsByDaiShiOrder_def js_sort_def
      createAnimationGroups_def allocate_element_def groupDur_def Let_def)

lemma rectangle_examples:
  "el_type none_rectangle = ''rectangle''" "backgroundColor none_rectangle = Some ''none''"
  "extractNumberFromElement none_rectangle ''animateDuration'' = 0"
  "el_type overridden_rectangle = ''rectangle''" "groupIds overridden_rectangle = [''g1'']"
  "el_id overridden_rectangle = ''r3-animateDuration:9000''"
  "extractNumberFromElement overridden_rectangle ''animateDuration'' = 9000"
  by (simp_all add: none_rectangle_def overridden_rectangle_def plain_element_def
      extractNumberFromElement_def match_here_def match_capture_def is_digit_def
      js_Number_def digits_value_def digit_val_def num_or_def)

lemma createElementAnimation_rectangle:
  assumes "el_type e = ''rectangle''"
  shows "fillAnimation (createElementAnimation e s d)
           = animateFillPath e
               (s + durationMs (createElementAnimation e s d) * (3 / 4))
               (durationMs (createElementAnimation e s d) * (1 / 4))"
    and "strokeDuration (createElementAnimation e s d)
           = Some (durationMs (createElementAnimation e s d) * (3 / 4))"
proof -
  have ty: "getElementAnimationType e = ''polygon''"
    using assms by (simp add: getElementAnimationType_def)
  show "fillAnimation (createElementAnimation e s d)
           = animateFillPath e
               (s + durationMs (createElementAnimation e s d) * (3 / 4))
               (durationMs (createElementAnimation e s d) * (1 / 4))"
    and "strokeDuration (createElementAnimation e s d)
           = Some (durationMs (createElementAnimation e s d) * (3 / 4))"
    unfolding createElementAnimation_polygon [OF ty] Let_def
    by (simp_all add: animatePolygon_fields)
qed

text \<open>
  Claim C3, as stated, fails twice. A rectangle whose background colour is \<^verbatim>\<open>"none"\<close> has
  no fill colour in the claim's words, yet it gets a fill descriptor. And a rectangle
  that is allocated 2500 ms as the only member of its group, but whose id encodes a
  duration of 9000 ms, gets a stroke of 6750 ms, not of three quarters of 2500 ms.
\<close>

theorem none_is_filled_and_override_stretches_stroke:
  "el_type none_rectangle = ''rectangle'' \<and> \<not> has_fill_color none_rectangle
   \<and> fillAnimation (createElementAnimation none_rectangle 1000 500) \<noteq> None
   \<and> el_type overridden_rectangle = ''rectangle''
   \<and> (\<exists>t. allocate [overridden_rectangle] = Inr t
          \<and> tl_duration t = 1000 + 2500 + 1000
          \<and> map startMs (tl_frames t) = [1000]
          \<and> map strokeDuration (tl_frames t) = [Some 6750])
   \<and> (6750 :: rat) \<noteq> 2500 * (3 / 4)"
proof -
  have "\<not> has_fill_color none_rectangle"
    by (simp add: has_fill_color_def rectangle_examples)
  moreover have "fillAnimation (createElementAnimation none_rectangle 1000 500) \<noteq> None"
    unfolding createElementAnimation_rectangle [OF rectangle_examples(1)]
    by (simp add: animateFillPath_None background_set_def rectangle_examples)
  moreover have "\<not> inherited_key ''g1''"
    by (simp add: inherited_key_def)
  from single_grouped [OF rectangle_examples(5) this]
  have "\<exists>t. allocate [overridden_rectangle] = Inr t
          \<and> tl_duration t = 1000 + 2500 + 1000
          \<and> map startMs (tl_frames t) = [1000]
          \<and> map strokeDuration (tl_frames t) = [Some 6750]"
    by (simp add: createElementAnimation_rectangle [OF rectangle_examples(4)]
        createElementAnimation_basic rectangle_examples)
  ultimately show ?thesis
    by (simp add: rectangle_examples)
qed

text \<open>
  Claim C3, amended: the polygon rule, handed a rectangle or a diamond, the start \<open>s\<close> and
  the duration \<open>d\<close>, gives a stroke that starts at \<open>s\<close> and takes three quarters of \<open>d\<close>; a
  fill descriptor exists exactly when the element has a fill colour in the claim's words
  or its background colour is the string \<^verbatim>\<open>"none"\<close>, that is, when its background is a
  non-empty string other than \<^verbatim>\<open>"transparent"\<close>; it then starts where the stroke ends and
  takes the remaining quarter. The factory applies this rule, with the duration it is
  handed, to every rectangle and diamond whose id encodes no duration.
\<close>

theorem polygon_stroke_then_fill:
  assumes "el_type e = ''rectangle'' \<or> el_type e = ''diamond''"
  shows "(let p = animatePolygon e s d in
            startMs p = s \<and> durationMs p = d
          \<and> strokeDuration p = Some (d * (3 / 4))
          \<and> (fillAnimation p \<noteq> None)
               = (has_fill_color e \<or> backgroundColor e = Some ''none'')
          \<and> (\<forall>f. fillAnimation p = Some f \<longrightarrow>
                 fa_startMs f = s + d * (3 / 4) \<and> fa_durationMs f = d * (1 / 4)))
       \<and> (extractNumberFromElement e ''animateDuration'' = 0 \<longrightarrow>
            (let a = createElementAnimation e s d in
               an_type a = ''polygon-animation'' \<and> startMs a = s \<and> durationMs a = d
             \<and> strokeDuration a = Some (d * (3 / 4))
             \<and> (fillAnimation a \<noteq> None)
                  = (has_fill_color e \<or> backgroundColor e = Some ''none'')
             \<and> (\<forall>f. fillAnimation a = Some f \<longrightarrow>
                    fa_startMs f = s + d * (3 / 4) \<and> fa_durationMs f = d * (1 / 4))))"
proof -
  have ty: "getElementAnimationType e = ''polygon''"
    using assms by (auto simp: getElementAnimationType_def)
  have rule: "let p = animatePolygon e s d in
            startMs p = s \<and> durationMs p = d
          \<and> strokeDuration p = Some (d * (3 / 4))
          \<and> (fillAnimation p \<noteq> None)
               = (has_fill_color e \<or> backgroundColor e = Some ''none'')
          \<and> (\<forall>f. fillAnimation p = Some f \<longrightarrow>
                 fa_startMs f = s + d * (3 / 4) \<and> fa_durationMs f = d * (1 / 4))"
    unfolding Let_def background_set_def [symmetric]
    by (auto simp: animatePolygon_fields animateFillPath_ex dest: animateFillPath_Some)
  have factory: "let a = createElementAnimation e s d in
               an_type a = ''polygon-animation'' \<and> startMs a = s \<and> durationMs a = d
             \<and> strokeDuration a = Some (d * (3 / 4))
             \<and> (fillAnimation a \<noteq> None)
                  = (has_fill_color e \<or> backgroundColor e = Some ''none'')
             \<and> (\<forall>f. fillAnimation a = Some f \<longrightarrow>
                    fa_startMs f = s + d * (3 / 4) \<and> fa_durationMs f = d * (1 / 4))"
    if "extractNumberFromElement e ''animateDuration'' = 0"
    unfolding createElementAnimation_polygon [OF ty] Let_def background_set_def [symmetric]
    using that
    by (auto simp: animatePolygon_fields animateFillPath_ex num_or_def
        dest: animateFillPath_Some)
  from rule factory show ?thesis by simp
qed

theorem polygon_stroke_then_fill_witness:
  "el_type filled_rectangle = ''rectangle''
   \<and> extractNumberFromElement filled_rectangle ''animateDuration'' = 0
   \<and> strokeDuration (createElementAnimation filled_rectangle 1000 500) = Some 375
   \<and> map_option fa_startMs (fillAnimation (createElementAnimation filled_rectangle 1000 500))
       = Some 1375
   \<and> map_option fa_durationMs (fillAnimation (createElementAnimation filled_rectangle 1000 500))
       = Some 125"
proof -
  have ty: "el_type filled_rectangle = ''rectangle''"
    and no: "extractNumberFromElement filled_rectangle ''animateDuration'' = 0"
    and bg: "has_fill_color filled_rectangle"
    by (simp_all add: filled_rectangle_def plain_element_def has_fill_color_def
        extractNumberFromElement_def match_here_def)
  let ?a = "createElementAnimation filled_rectangle 1000 500"
  from polygon_stroke_then_fill [of filled_rectangle 1000 500] ty no bg
  have st: "strokeDuration ?a = Some 375" and ex: "fillAnimation ?a \<noteq> None"
    and fl: "\<forall>f. fillAnimation ?a = Some f \<longrightarrow> fa_startMs f = 1375 \<and> fa_durationMs f = 125"
    by (simp_all add: Let_def)
  from ex obtain f where "fillAnimation ?a = Some f" by auto
  with fl st ty no show ?thesis by simp
qed

section \<open>Paths: one stroke with a pointer\<close>

lemma getElementAnimationType_path:
  assumes "animated_as_path e"
  shows "getElementAnimationType e = ''path'' \<or> getElementAnimationType e = ''freedraw''"
  using assms
  by (cases "backgroundColor e")
     (auto simp: animated_as_path_def getElementAnimationType_def background_set_iff)

lemma getElementAnimationType_straight:
  assumes "el_type e = ''line'' \<or> el_type e = ''arrow''" and "\<not> roundness e"
  shows "getElementAnimationType e = ''polygon''"
  using assms by (auto simp: getElementAnimationType_def)

lemma animatePath_fields:
  "an_type (animatePath e s d) = ''path-animation''"
  "startMs (animatePath e s d) = s"
  "durationMs (animatePath e s d) = d"
  "strokeDuration (animatePath e s d) = None"
  "fillAnimation (animatePath e s d) = None"
  "pointer (animatePath e s d) = Some (animatePointer e s d)"
  by (simp_all add: animatePath_def base_animation_def Let_def)

lemma animateFreedraw_fields:
  "an_type (animateFreedraw e s d) = ''freedraw-animation''"
  "startMs (animateFreedraw e s d) = s"
  "durationMs (animateFreedraw e s d) = d"
  "strokeDuration (animateFreedraw e s d) = None"
  "fillAnimation (animateFreedraw e s d) = None"
  "pointer (animateFreedraw e s d) = Some (animatePointer e s d)"
  by (simp_all add: animateFreedraw_def base_animation_def Let_def)

lemma animatePointer_fields:
  "pm_startMs (animatePointer e s d) = s"
  "pm_durationMs (animatePointer e s d) = d"
  "pm_element (animatePointer e s d) = el_id e"
  "pm_path (animatePointer e s d) = generatePointerPath e"
  by (simp_all add: animatePointer_def)

lemma field_or_default:
  assumes "field_or v 0 \<noteq> 0"
  shows "field_or v b = field_or v 0"
  using assms by (cases v) (simp_all add: num_or_def)

lemma generatePointerPath_line:
  assumes "el_type e = ''line'' \<or> el_type e = ''arrow''"
  shows "generatePointerPath e
           = [MoveTo (field_or (el_x e) 0) (field_or (el_y e) 0),
              LineTo (field_or (el_x e) 0 + field_or (width e) 100)
                     (field_or (el_y e) 0 + field_or (height e) 100)]"
  using assms by (auto simp: generatePointerPath_def generateLinePointerPath_def Let_def)

lemma generatePointerPath_ellipse:
  assumes "el_type e = ''ellipse''"
  shows "generatePointerPath e = generateEllipsePointerPath e"
  using assms by (simp add: generatePointerPath_def)

lemma generatePointerPath_freedraw:
  assumes "el_type e = ''freedraw''"
  shows "generatePointerPath e = generateFreedrawPointerPath e"
  using assms by (simp add: generatePointerPath_def)

lemma createElementAnimation_path:
  assumes "getElementAnimationType e = ''path''"
  shows "createElementAnimation e s d
           = (let a = animatePath e s
                        (num_or (of_int (extractNumberFromElement e ''animateDuration'')) d)
              in if length (groupIds e) > 0
                 then a\<lparr>an_groupIds := Some (groupIds e), groupAnimation := True\<rparr> else a)"
  using assms by (simp add: createElementAnimation_def Let_def)

lemma stroke_of_line:
  assumes ty: "el_type e = ''line'' \<or> el_type e = ''arrow''"
    and path: "animated_as_path e"
    and x: "field_or (el_x e) 0 \<noteq> 0" and y: "field_or (el_y e) 0 \<noteq> 0"
  shows "createSvgElement env e (createElementAnimation e s d) idx
           = ProgressivePath (el_type e)
               (generateSvgPath e (field_or (el_x e) 0) (field_or (el_y e) 0))
               (s / 1000) (durationMs (createElementAnimation e s d) / 1000)"
proof -
  from ty path have "getElementAnimationType e = ''path''"
    using getElementAnimationType_path [of e]
    by (auto simp: getElementAnimationType_def split: if_splits)
  note a = createElementAnimation_path [OF this]
  have "an_type (createElementAnimation e s d) = ''path-animation''"
    and "startMs (createElementAnimation e s d) = s"
    unfolding a Let_def by (simp_all add: animatePath_fields)
  then show ?thesis
    by (simp add: createSvgElement_def Let_def createProgressivePathSvg_def
        field_or_default [OF x, of "100 + of_nat idx * 200"]
        field_or_default [OF y, of "200 + of_nat idx * 100"])
qed

lemma path_like_examples:
  "el_type straight_line = ''line''" "\<not> roundness straight_line"
  "el_type round_arrow = ''arrow''" "animated_as_path round_arrow"
  "extractNumberFromElement round_arrow ''animateDuration'' = 0"
  "field_or (el_x round_arrow) 0 = 10" "field_or (el_y round_arrow) 0 = 20"
  "field_or (width round_arrow) 100 = 300" "field_or (height round_arrow) 100 = 40"
  "el_type filled_round_line = ''line''" "roundness filled_round_line"
  "getElementAnimationType filled_round_line = ''path-with-fill''"
  by (simp_all add: straight_line_def round_arrow_def filled_round_line_def
      plain_element_def animated_as_path_def background_set_iff
      extractNumberFromElement_def match_here_def num_or_def getElementAnimationType_def)

text \<open>
  Claim C4, as stated, fails three times. A line without roundness is animated as a
  polygon, with the stroke taking three quarters of the duration and no pointer-motion
  descriptor. A line with a roundness and a background colour gets neither a stroke nor
  a pointer-motion descriptor, but the generic fade. And the pointer of an arrow does not
  trace the geometry that is drawn: the stroke has three head strokes after the shaft,
  the pointer's path is the shaft alone.
\<close>

theorem line_is_polygon_and_pointer_skips_arrow_head:
  "el_type straight_line = ''line''
   \<and> an_type (createElementAnimation straight_line 1000 500) = ''polygon-animation''
   \<and> strokeDuration (createElementAnimation straight_line 1000 500) = Some 375
   \<and> pointer (createElementAnimation straight_line 1000 500) = None
   \<and> el_type filled_round_line = ''line''
   \<and> an_type (createElementAnimation filled_round_line 1000 500) = ''generic-animation''
   \<and> pointer (createElementAnimation filled_round_line 1000 500) = None
   \<and> el_type round_arrow = ''arrow''
   \<and> map_option pm_path (pointer (createElementAnimation round_arrow 1000 500))
       = Some [MoveTo 10 20, LineTo 310 60]
   \<and> createSvgElement first_run round_arrow (createElementAnimation round_arrow 1000 500) 0
       = ProgressivePath ''arrow''
           [MoveTo 10 20, LineTo 310 60, MoveTo 290 50, LineTo 310 60, LineTo 300 40]
           1 (1 / 2)"
proof -
  have "an_type (createElementAnimation straight_line 1000 500) = ''polygon-animation''
     \<and> strokeDuration (createElementAnimation straight_line 1000 500) = Some 375
     \<and> pointer (createElementAnimation straight_line 1000 500) = None"
    by (simp add: straight_line_def plain_element_def createElementAnimation_def
        getElementAnimationType_def animatePolygon_def base_animation_def Let_def num_or_def
        extractNumberFromElement_def match_here_def)
  moreover have "an_type (createElementAnimation filled_round_line 1000 500)
                   = ''generic-animation''
     \<and> pointer (createElementAnimation filled_round_line 1000 500) = None"
    by (simp add: createElementAnimation_def path_like_examples Let_def animateGeneric_def
        base_animation_def)
  moreover have ty: "getElementAnimationType round_arrow = ''path''"
    by (simp add: round_arrow_def plain_element_def getElementAnimationType_def)
  have dur: "durationMs (createElementAnimation round_arrow 1000 500) = 500"
    and ptr: "map_option pm_path (pointer (createElementAnimation round_arrow 1000 500))
               = Some [MoveTo 10 20, LineTo 310 60]"
    unfolding createElementAnimation_path [OF ty] Let_def
    by (simp_all add: animatePath_fields animatePointer_fields generatePointerPath_line
        path_like_examples num_or_def)
  have "createSvgElement first_run round_arrow (createElementAnimation round_arrow 1000 500) 0
       = ProgressivePath ''arrow''
           [MoveTo 10 20, LineTo 310 60, MoveTo 290 50, LineTo 310 60, LineTo 300 40]
           1 (1 / 2)"
    by (simp add: stroke_of_line path_like_examples dur generateSvgPath_def Let_def)
  ultimately show ?thesis
    using ptr by (simp add: path_like_examples)
qed

text \<open>
  Claim C4, amended: for every ellipse, every freehand element and every line or arrow
  that has a roundness and no background set, the factory emits one stroke descriptor
  that starts at \<open>s\<close> and spans the whole duration of the descriptor (the duration \<open>d\<close>
  handed in when the id encodes none), with no stroke/fill split, together with a
  pointer-motion descriptor of the same start and span. The pointer's path is, for a
  line or an arrow, the straight segment from \<open>(x, y)\<close> to \<open>(x + width, y + height)\<close>,
  which, when neither coordinate is zero, is the stroke drawn for a line and the shaft,
  without the three head strokes, of the stroke drawn for an arrow; for an ellipse, four
  Bezier curves from the rightmost point of the ellipse inscribed in the bounding box
  through its topmost, leftmost and bottommost points and back; for a freehand element, the polyline through its points as
  they are stored, or the one point at the centre when it has none. Absent or zero
  coordinates read as 0, an absent or zero width or height as 100 (as 50 for the centre
  of a freehand element). A line or arrow without roundness is animated as a polygon
  instead: its stroke takes three quarters of the duration and it has no pointer-motion
  descriptor.
\<close>

theorem path_like_descriptors:
  "let a = createElementAnimation e s d;
       x = field_or (el_x e) 0; y = field_or (el_y e) 0;
       w = field_or (width e) 100; h = field_or (height e) 100;
       head = (if el_type e = ''arrow''
               then [MoveTo (x + w - 20) (y + h - 10), LineTo (x + w) (y + h),
                     LineTo (x + w - 10) (y + h - 20)]
               else [])
   in
     (animated_as_path e \<longrightarrow>
        (an_type a = ''path-animation'' \<or> an_type a = ''freedraw-animation'')
        \<and> startMs a = s
        \<and> (extractNumberFromElement e ''animateDuration'' = 0 \<longrightarrow> durationMs a = d)
        \<and> strokeDuration a = None \<and> fillAnimation a = None
        \<and> (\<exists>p. pointer a = Some p \<and> pm_startMs p = startMs a
                 \<and> pm_durationMs p = durationMs a \<and> pm_element p = el_id e
                 \<and> (el_type e = ''line'' \<or> el_type e = ''arrow'' \<longrightarrow>
                      pm_path p = [MoveTo x y, LineTo (x + w) (y + h)]
                      \<and> (x \<noteq> 0 \<and> y \<noteq> 0 \<longrightarrow>
                           (\<forall>env idx. createSvgElement env e a idx
                              = ProgressivePath (el_type e) (pm_path p @ head)
                                  (s / 1000) (durationMs a / 1000))))
                 \<and> (el_type e = ''ellipse'' \<longrightarrow>
                      pm_path p =
                        [MoveTo (x + w) (y + h / 2),
                         CurveTo (x + w) (y + h / 2 - h / 2 * (55 / 100))
                                 (x + w / 2 + w / 2 * (55 / 100)) y (x + w / 2) y,
                         CurveTo (x + w / 2 - w / 2 * (55 / 100)) y
                                 x (y + h / 2 - h / 2 * (55 / 100)) x (y + h / 2),
                         CurveTo x (y + h / 2 + h / 2 * (55 / 100))
                                 (x + w / 2 - w / 2 * (55 / 100)) (y + h) (x + w / 2) (y + h),
                         CurveTo (x + w / 2 + w / 2 * (55 / 100)) (y + h)
                                 (x + w) (y + h / 2 + h / 2 * (55 / 100)) (x + w) (y + h / 2)])
                 \<and> (el_type e = ''freedraw'' \<longrightarrow>
                      pm_path p =
                        (case points e of
                           Some ((px, py) # ps) \<Rightarrow>
                             MoveTo px py # map (\<lambda>(qx, qy). LineTo qx qy) ps
                         | _ \<Rightarrow> [MoveTo (x + field_or (width e) 50 / 2)
                                         (y + field_or (height e) 50 / 2)]))))
   \<and> ((el_type e = ''line'' \<or> el_type e = ''arrow'') \<and> \<not> roundness e \<longrightarrow>
        an_type a = ''polygon-animation'' \<and> startMs a = s
        \<and> strokeDuration a = Some (durationMs a * (3 / 4)) \<and> pointer a = None)"
proof -
  let ?a = "createElementAnimation e s d"
  let ?x = "field_or (el_x e) 0" and ?y = "field_or (el_y e) 0"
  let ?w = "field_or (width e) 100" and ?h = "field_or (height e) 100"
  let ?head = "if el_type e = ''arrow''
               then [MoveTo (?x + ?w - 20) (?y + ?h - 10), LineTo (?x + ?w) (?y + ?h),
                     LineTo (?x + ?w - 10) (?y + ?h - 20)]
               else []"
  let ?p = "animatePointer e s (durationMs ?a)"
  have straight: "an_type ?a = ''polygon-animation'' \<and> startMs ?a = s
        \<and> strokeDuration ?a = Some (durationMs ?a * (3 / 4)) \<and> pointer ?a = None"
    if "(el_type e = ''line'' \<or> el_type e = ''arrow'') \<and> \<not> roundness e"
  proof -
    from that have "getElementAnimationType e = ''polygon''"
      by (simp add: getElementAnimationType_straight)
    then show ?thesis
      by (simp add: createElementAnimation_def Let_def animatePolygon_fields
          animatePolygon_def base_animation_def)
  qed
  have descr: "(an_type ?a = ''path-animation'' \<or> an_type ?a = ''freedraw-animation'')
        \<and> startMs ?a = s
        \<and> (extractNumberFromElement e ''animateDuration'' = 0 \<longrightarrow> durationMs ?a = d)
        \<and> strokeDuration ?a = None \<and> fillAnimation ?a = None
        \<and> pointer ?a = Some ?p"
    if "animated_as_path e"
    using getElementAnimationType_path [OF that]
    by (auto simp: createElementAnimation_def Let_def animatePath_fields
        animateFreedraw_fields num_or_def)
  have line: "pm_path ?p = [MoveTo ?x ?y, LineTo (?x + ?w) (?y + ?h)]"
    if "el_type e = ''line'' \<or> el_type e = ''arrow''"
    using that by (simp add: animatePointer_fields generatePointerPath_line)
  have drawn: "createSvgElement env e ?a idx
                 = ProgressivePath (el_type e) (pm_path ?p @ ?head)
                     (s / 1000) (durationMs ?a / 1000)"
    if "el_type e = ''line'' \<or> el_type e = ''arrow''" "animated_as_path e"
       "?x \<noteq> 0" "?y \<noteq> 0" for env idx
    unfolding stroke_of_line [OF that] line [OF that(1)]
    using that(1) by (auto simp: generateSvgPath_def Let_def)
  have ellipse: "pm_path ?p =
        [MoveTo (?x + ?w) (?y + ?h / 2),
         CurveTo (?x + ?w) (?y + ?h / 2 - ?h / 2 * (55 / 100))
                 (?x + ?w / 2 + ?w / 2 * (55 / 100)) ?y (?x + ?w / 2) ?y,
         CurveTo (?x + ?w / 2 - ?w / 2 * (55 / 100)) ?y
                 ?x (?y + ?h / 2 - ?h / 2 * (55 / 100)) ?x (?y + ?h / 2),
         CurveTo ?x (?y + ?h / 2 + ?h / 2 * (55 / 100))
                 (?x + ?w / 2 - ?w / 2 * (55 / 100)) (?y + ?h) (?x + ?w / 2) (?y + ?h),
         CurveTo (?x + ?w / 2 + ?w / 2 * (55 / 100)) (?y + ?h)
                 (?x + ?w) (?y + ?h / 2 + ?h / 2 * (55 / 100)) (?x + ?w) (?y + ?h / 2)]"
    if "el_type e = ''ellipse''"
    using that
    by (simp add: animatePointer_fields generatePointerPath_ellipse
        generateEllipsePointerPath_def Let_def)
  have freedraw: "pm_path ?p =
        (case points e of
           Some ((px, py) # ps) \<Rightarrow> MoveTo px py # map (\<lambda>(qx, qy). LineTo qx qy) ps
         | _ \<Rightarrow> [MoveTo (?x + field_or (width e) 50 / 2) (?y + field_or (height e) 50 / 2)])"
    if "el_type e = ''freedraw''"
    using that
    by (simp add: animatePointer_fields generatePointerPath_freedraw
        generateFreedrawPointerPath_def generateGenericPointerPath_def Let_def
        split: option.splits list.splits)
  have "\<exists>p. pointer ?a = Some p \<and> pm_startMs p = startMs ?a
           \<and> pm_durationMs p = durationMs ?a \<and> pm_element p = el_id e
           \<and> (el_type e = ''line'' \<or> el_type e = ''arrow'' \<longrightarrow>
                pm_path p = [MoveTo ?x ?y, LineTo (?x + ?w) (?y + ?h)]
                \<and> (?x \<noteq> 0 \<and> ?y \<noteq> 0 \<longrightarrow>
                     (\<forall>env idx. createSvgElement env e ?a idx
                        = ProgressivePath (el_type e) (pm_path p @ ?head)
                            (s / 1000) (durationMs ?a / 1000))))
           \<and> (el_type e = ''ellipse'' \<longrightarrow>
                pm_path p =
                  [MoveTo (?x + ?w) (?y + ?h / 2),
                   CurveTo (?x + ?w) (?y + ?h / 2 - ?h / 2 * (55 / 100))
                           (?x + ?w / 2 + ?w / 2 * (55 / 100)) ?y (?x + ?w / 2) ?y,
                   CurveTo (?x + ?w / 2 - ?w / 2 * (55 / 100)) ?y
                           ?x (?y + ?h / 2 - ?h / 2 * (55 / 100)) ?x (?y + ?h / 2),
                   CurveTo ?x (?y + ?h / 2 + ?h / 2 * (55 / 100))
                           (?x + ?w / 2 - ?w / 2 * (55 / 100)) (?y + ?h) (?x + ?w / 2) (?y + ?h),
                   CurveTo (?x + ?w / 2 + ?w / 2 * (55 / 100)) (?y + ?h)
                           (?x + ?w) (?y + ?h / 2 + ?h / 2 * (55 / 100)) (?x + ?w) (?y + ?h / 2)])
           \<and> (el_type e = ''freedraw'' \<longrightarrow>
                pm_path p =
                  (case points e of
                     Some ((px, py) # ps) \<Rightarrow>
                       MoveTo px py # map (\<lambda>(qx, qy). LineTo qx qy) ps
                   | _ \<Rightarrow> [MoveTo (?x + field_or (width e) 50 / 2)
                                   (?y + field_or (height e) 50 / 2)]))"
    if path: "animated_as_path e"
  proof (intro exI [of _ ?p] conjI impI allI)
    show "pointer ?a = Some ?p" using descr [OF path] by simp
    show "pm_startMs ?p = startMs ?a" using descr [OF path] by (simp add: animatePointer_fields)
    show "pm_durationMs ?p = durationMs ?a" by (simp add: animatePointer_fields)
    show "pm_element ?p = el_id e" by (simp add: animatePointer_fields)
  next
    assume "el_type e = ''line'' \<or> el_type e = ''arrow''"
    then show "pm_path ?p = [MoveTo ?x ?y, LineTo (?x + ?w) (?y + ?h)]" by (rule line)
  next
    fix env idx
    assume "el_type e = ''line'' \<or> el_type e = ''arrow''" "?x \<noteq> 0 \<and> ?y \<noteq> 0"
    then show "createSvgElement env e ?a idx
                 = ProgressivePath (el_type e) (pm_path ?p @ ?head)
                     (s / 1000) (durationMs ?a / 1000)"
      using drawn [OF _ path] by simp
  next
    assume "el_type e = ''ellipse''"
    then show "pm_path ?p =
        [MoveTo (?x + ?w) (?y + ?h / 2),
         CurveTo (?x + ?w) (?y + ?h / 2 - ?h / 2 * (55 / 100))
                 (?x + ?w / 2 + ?w / 2 * (55 / 100)) ?y (?x + ?w / 2) ?y,
         CurveTo (?x + ?w / 2 - ?w / 2 * (55 / 100)) ?y
                 ?x (?y + ?h / 2 - ?h / 2 * (55 / 100)) ?x (?y + ?h / 2),
         CurveTo ?x (?y + ?h / 2 + ?h / 2 * (55 / 100))
                 (?x + ?w / 2 - ?w / 2 * (55 / 100)) (?y + ?h) (?x + ?w / 2) (?y + ?h),
         CurveTo (?x + ?w / 2 + ?w / 2 * (55 / 100)) (?y + ?h)
                 (?x + ?w) (?y + ?h / 2 + ?h / 2 * (55 / 100)) (?x + ?w) (?y + ?h / 2)]"
      by (rule ellipse)
  next
    assume "el_type e = ''freedraw''"
    then show "pm_path ?p =
        (case points e of
           Some ((px, py) # ps) \<Rightarrow> MoveTo px py # map (\<lambda>(qx, qy). LineTo qx qy) ps
         | _ \<Rightarrow> [MoveTo (?x + field_or (width e) 50 / 2) (?y + field_or (height e) 50 / 2)])"
      by (rule freedraw)
  qed
  with descr straight show ?thesis
    unfolding Let_def by blast
qed

theorem path_like_descriptors_witness:
  "animated_as_path round_arrow \<and> el_type round_arrow = ''arrow''
   \<and> extractNumberFromElement round_arrow ''animateDuration'' = 0
   \<and> durationMs (createElementAnimation round_arrow 1000 500) = 500
   \<and> map_option pm_durationMs (pointer (createElementAnimation round_arrow 1000 500))
       = Some 500
   \<and> map_option pm_path (pointer (createElementAnimation round_arrow 1000 500))
       = Some [MoveTo 10 20, LineTo 310 60]
   \<and> el_type straight_line = ''line'' \<and> \<not> roundness straight_line
   \<and> pointer (createElementAnimation straight_line 1000 500) = None"
proof -
  note ex = path_like_examples
  from path_like_descriptors [of round_arrow 1000 500] ex(3,4,5)
  have "durationMs (createElementAnimation round_arrow 1000 500) = 500"
    and "\<exists>p. pointer (createElementAnimation round_arrow 1000 500) = Some p
           \<and> pm_durationMs p = 500 \<and> pm_path p = [MoveTo 10 20, LineTo 310 60]"
    by (auto simp: Let_def ex(6,7,8,9))
  moreover from path_like_descriptors [of straight_line 1000 500] ex(1,2)
  have "pointer (createElementAnimation straight_line 1000 500) = None"
    by (simp add: Let_def)
  ultimately show ?thesis using ex by auto
qed

section \<open>Two runs on equal inputs\<close>

lemma createElementAnimation_text:
  assumes "an_type (createElementAnimation e s d) = ''text-animation''"
  shows "el_type e = ''text''"
proof -
  have "getElementAnimationType e = ''text''"
    using assms
    by (auto simp: createElementAnimation_def Let_def animatePath_def animatePolygon_def
        animateText_def animateFreedraw_def animateImage_def animateGeneric_def
        base_animation_def split: if_splits)
  then show ?thesis
    by (auto simp: getElementAnimationType_def split: if_splits)
qed


lemma time_slots_elements:
  "fst ` set (time_slots ordered scheduled xs) \<subseteq> set xs \<union> set ordered"
proof (induction xs arbitrary: scheduled)
  case Nil
  then show ?case by simp
next
  case (Cons e xs)
  show ?case
  proof (cases "primary_group e")
    case None
    with Cons.IH [of scheduled] show ?thesis by auto
  next
    case (Some g)
    with Cons.IH [of scheduled] Cons.IH [of "insert g scheduled"] show ?thesis
      by (auto simp: group_members_def)
  qed
qed

lemma lay_out_types:
  "\<forall>a \<in> set (lay_out c slots). \<exists>s d. a = createElementAnimation (an_element a) s d"
  by (induction c slots rule: lay_out.induct) (auto simp: createElementAnimation_basic)

lemma frames_of_drawing:
  assumes "allocate es = Inr t" and "a \<in> set (tl_frames t)"
  shows "an_element a \<in> set es \<and> (\<exists>s d. a = createElementAnimation (an_element a) s d)"
proof -
  let ?ord = "sortElementsByDaiShiOrder es"
  let ?slots = "time_slots ?ord {} ?ord"
  from allocate_schedule [OF assms(1)] assms(2)
  have a: "a \<in> set (lay_out 1000 ?slots)" by simp
  then have "an_element a \<in> set (map an_element (lay_out 1000 ?slots))"
    by simp
  then have "an_element a \<in> fst ` set ?slots"
    unfolding lay_out_elements by simp
  with time_slots_elements [of ?ord "{}" ?ord] have "an_element a \<in> set es"
    by (auto simp: set_sortElementsByDaiShiOrder)
  with a lay_out_types show ?thesis by blast
qed

lemma createSvgElement_env:
  assumes "an_type a = ''text-animation'' \<longrightarrow>
             str_or (el_text (an_element a)) [] \<noteq> [] \<and> el_id (an_element a) \<noteq> []"
  shows "createSvgElement env1 (an_element a) a i = createSvgElement env2 (an_element a) a i"
proof (cases "an_type a = ''text-animation''")
  case True
  with assms have "str_or (el_text (an_element a)) [] \<noteq> []" and "el_id (an_element a) \<noteq> []"
    by simp_all
  then show ?thesis
    by (cases "el_text (an_element a)")
       (simp_all add: createSvgElement_def createProgressiveTextSvg_def Let_def)
next
  case False
  then show ?thesis by (simp add: createSvgElement_def Let_def)
qed

lemma svg_elements_env:
  assumes "\<forall>a \<in> set frames. an_type a = ''text-animation'' \<longrightarrow>
             str_or (el_text (an_element a)) [] \<noteq> [] \<and> el_id (an_element a) \<noteq> []"
  shows "svg_elements env1 frames i = svg_elements env2 frames i"
  using assms
proof (induction frames arbitrary: i)
  case Nil
  then show ?case by simp
next
  case (Cons a frames)
  then show ?case
    using createSvgElement_env [of a env1 i env2] by simp
qed

lemma untitled_fields:
  "el_type untitled_text = ''text''" "groupIds untitled_text = []"
  "el_text untitled_text = None" "el_id untitled_text = ''t1''"
  "el_x untitled_text = None" "el_y untitled_text = None" "fontSize untitled_text = None"
  by (simp_all add: untitled_text_def plain_element_def)

lemma untitled_frame:
  "createElementAnimation untitled_text 1000 500 = animateText untitled_text 1000 500"
proof -
  have "extractNumberFromElement untitled_text ''animateDuration'' = 0"
    by (simp add: extractNumberFromElement_def untitled_fields match_here_def)
  moreover have "getElementAnimationType untitled_text = ''text''"
    by (simp add: getElementAnimationType_def untitled_fields)
  ultimately show ?thesis
    by (simp add: createElementAnimation_def Let_def num_or_def untitled_fields)
qed

lemma untitled_node:
  "createSvgElement env untitled_text (animateText untitled_text 1000 500) 0
     = ProgressiveText (''Text '' @ random_suffix env 0) (TextPathOfId ''t1'')
         [MoveTo 100 200,
          LineTo (160 + of_nat (length (random_suffix env 0)) * 12) 200] 1 (1 / 2)"
proof -
  have "an_type (animateText untitled_text 1000 500) = ''text-animation''"
    and "startMs (animateText untitled_text 1000 500) = 1000"
    and "durationMs (animateText untitled_text 1000 500) = 500"
    and "textWidth (animateText untitled_text 1000 500) = Some 0"
    by (simp_all add: animateText_def base_animation_def Let_def estimateTextWidth_def
        text_length_def untitled_fields)
  then show ?thesis
    by (simp add: createSvgElement_def createProgressiveTextSvg_def Let_def untitled_fields
        num_or_def)
qed

lemma untitled_svg:
  "map_sum id (\<lambda>r. svg_nodes (sd_content (svgData r)))
     (generateWithExcalidrawAnimate hd_config env [untitled_text])
   = Inr [ProgressiveText (''Text '' @ random_suffix env 0) (TextPathOfId ''t1'')
            [MoveTo 100 200,
             LineTo (160 + of_nat (length (random_suffix env 0)) * 12) 200] 1 (1 / 2)]"
proof -
  have ex: "extractNumberFromElement untitled_text ''animateDuration'' = 0"
    by (simp add: extractNumberFromElement_def untitled_fields match_here_def)
  have "allocate [untitled_text] =
          Inr \<lparr>tl_sortedElements = [untitled_text],
               tl_frames = [animateText untitled_text 1000 500], tl_duration = 2500\<rparr>"
    using single_ungrouped [OF untitled_fields(2)] by (simp add: ex untitled_frame)
  then show ?thesis
    by (simp add: generateWithExcalidrawAnimate_def createAnimatedSvg_def
        generateAnimatedSvgContent_def untitled_node
        animateText_def [THEN arg_cong [where f = an_element]] base_animation_def Let_def)
qed

lemma length_frame_loop:
  "length (frame_loop cfg totalFrames frame frames)
     = length frames + (nat \<lceil>totalFrames\<rceil> - frame)"
proof (induction cfg totalFrames frame frames rule: frame_loop.induct)
  case (1 cfg totalFrames frame frames)
  show ?case
  proof (cases "of_nat frame < totalFrames")
    case True
    then have "of_int (int frame) < totalFrames" by simp
    then have "int frame < \<lceil>totalFrames\<rceil>" by (simp only: less_ceiling_iff)
    with True 1 show ?thesis
      by (simp add: frame_loop.simps [of cfg totalFrames frame frames])
  next
    case False
    then have "\<not> of_int (int frame) < totalFrames" by simp
    then have "\<not> int frame < \<lceil>totalFrames\<rceil>" by (simp add: less_ceiling_iff)
    with False show ?thesis
      by (simp add: frame_loop.simps [of cfg totalFrames frame frames])
  qed
qed

lemma calculateAnimationSpeed_not_zero: "calculateAnimationSpeed n (Fin d) \<noteq> Fin 0"
  by (auto simp: calculateAnimationSpeed_def Math_min_def Math_max_def Let_def)

lemma generateFrameByFrame_returns:
  assumes "cfg_speed cfg \<noteq> Fin 0"
  shows "generateFrameByFrame cfg timestamps \<noteq> None"
  using assms by (cases "cfg_speed cfg") (auto simp: generateFrameByFrame_def Let_def)

lemma generateAnimation_progressive:
  assumes "allocate es = Inr t"
  shows "generateAnimation cfg env es timestamps
           = Some (Progressive
               \<lparr>svgData = createAnimatedSvg cfg env es (tl_frames t),
                res_frames = tl_frames t, res_frameRate = frameRate cfg,
                res_duration = tl_duration t, res_outputDir = outputDir cfg,
                res_sortedElements = tl_sortedElements t\<rparr>)"
  using assms by (simp add: generateAnimation_def generateWithExcalidrawAnimate_def)

lemma generateAnimation_fallback:
  assumes "allocate es = Inl err"
  shows "generateAnimation cfg env es timestamps
           = map_option FrameByFrame (generateFrameByFrame cfg timestamps)"
  using assms by (simp add: generateAnimation_def generateWithExcalidrawAnimate_def)

lemma svg_of_given_texts:
  assumes t: "allocate es = Inr t" and given: "texts_given es"
  shows "svg_elements env1 (tl_frames t) 0 = svg_elements env2 (tl_frames t) 0"
proof (rule svg_elements_env, intro ballI impI)
  fix a
  assume a: "a \<in> set (tl_frames t)" and ty: "an_type a = ''text-animation''"
  from frames_of_drawing [OF t a] obtain s d where
    el: "an_element a \<in> set es" and mk: "a = createElementAnimation (an_element a) s d"
    by blast
  from ty mk have "el_type (an_element a) = ''text''"
    using createElementAnimation_text [of "an_element a" s d] by simp
  with el given
  show "str_or (el_text (an_element a)) [] \<noteq> [] \<and> el_id (an_element a) \<noteq> []"
    by (auto simp: texts_given_def list_all_iff)
qed

text \<open>
  The generator on two configurations that differ in the speed at most, and in two
  environments: when the allocator succeeds the speed and the timestamps are not read.
\<close>

lemma generateAnimation_two_runs:
  assumes t: "allocate es = Inr t"
  shows "generateAnimation cfg env1 es ts1 \<noteq> None
       \<and> map_option (\<lambda>a. timing_output \<lparr>sy_animation = a, narrationSync = n\<rparr>)
           (generateAnimation cfg env1 es ts1)
         = map_option (\<lambda>a. timing_output \<lparr>sy_animation = a, narrationSync = n\<rparr>)
           (generateAnimation (cfg\<lparr>cfg_speed := v\<rparr>) env2 es ts2)
       \<and> (texts_given es \<longrightarrow>
           generateAnimation cfg env1 es ts1
             = generateAnimation (cfg\<lparr>cfg_speed := v\<rparr>) env2 es ts2)"
  unfolding generateAnimation_progressive [OF t]
  using svg_of_given_texts [OF t, of env1 env2]
  by (simp add: timing_output_def createAnimatedSvg_def generateAnimatedSvgContent_def)

lemma generateAnimation_env:
  assumes "allocate es = Inl err"
  shows "generateAnimation cfg env1 es ts = generateAnimation cfg env2 es ts"
  by (simp add: generateAnimation_fallback [OF assms])

lemma synchronized_None:
  "generateSynchronizedAnimation cfg env es None
     = (map_option (\<lambda>a. \<lparr>sy_animation = a, narrationSync = None\<rparr>)
          (generateAnimation cfg env es (createDefaultTimestamps es)), cfg)"
  by (simp add: generateSynchronizedAnimation_def)

lemma fallback_frames:
  "map_option (length \<circ> fb_frames)
     (generateFrameByFrame (hd_config\<lparr>cfg_speed := Fin r\<rparr>)
        (createDefaultTimestamps [inherited_group_box]))
   = (if r = 0 then None else Some (nat \<lceil>30 / r\<rceil>))"
  by (simp add: generateFrameByFrame_def createDefaultTimestamps_def calculateDuration_def
      Let_def hd_config_def num_or_def length_frame_loop)

text \<open>
  Claim C9, as stated, fails three times. For a text element without text, two runs in
  which \<^verbatim>\<open>Math.random()\<close> gives different values return different results, the placeholder
  text in the SVG being different. A call with a narration does not only read its
  arguments: it leaves the speed 0.5 in the animator that was created with the speed 1.
  And a call reads that speed when the generator falls back to the frames: the same
  drawing, without narration, gives 30 frames before the narrated call and 60 after it.
\<close>

theorem placeholder_and_animator_speed_differ:
  "fst (generateSynchronizedAnimation hd_config first_run [untitled_text] None)
     \<noteq> fst (generateSynchronizedAnimation hd_config second_run [untitled_text] None)
   \<and> snd (generateSynchronizedAnimation hd_config first_run narrated_drawing
            (Some narration_timeline))
       = hd_config\<lparr>cfg_speed := Fin (1 / 2)\<rparr>
   \<and> hd_config\<lparr>cfg_speed := Fin (1 / 2)\<rparr> \<noteq> hd_config
   \<and> fst (generateSynchronizedAnimation hd_config first_run [inherited_group_box] None)
       \<noteq> fst (generateSynchronizedAnimation (hd_config\<lparr>cfg_speed := Fin (1 / 2)\<rparr>) first_run
                [inherited_group_box] None)"
proof -
  let ?nodes = "\<lambda>s. case sy_animation s of
                   Progressive r \<Rightarrow> svg_nodes (sd_content (svgData r)) | FrameByFrame f \<Rightarrow> []"
  have nodes: "map_option ?nodes
                 (fst (generateSynchronizedAnimation hd_config env [untitled_text] None))
               = Some [ProgressiveText (''Text '' @ random_suffix env 0) (TextPathOfId ''t1'')
                   [MoveTo 100 200,
                    LineTo (160 + of_nat (length (random_suffix env 0)) * 12) 200] 1 (1 / 2)]"
    for env
    using untitled_svg [of env]
    by (cases "generateWithExcalidrawAnimate hd_config env [untitled_text]")
       (simp_all add: synchronized_None generateAnimation_def)
  have "map_option ?nodes
          (fst (generateSynchronizedAnimation hd_config first_run [untitled_text] None))
        \<noteq> map_option ?nodes
          (fst (generateSynchronizedAnimation hd_config second_run [untitled_text] None))"
    unfolding nodes by (simp add: first_run_def second_run_def)
  then have one: "fst (generateSynchronizedAnimation hd_config first_run [untitled_text] None)
     \<noteq> fst (generateSynchronizedAnimation hd_config second_run [untitled_text] None)"
    by auto
  have "calculateAnimationSpeed (length narrated_drawing)
          (Fin (totalDuration narration_timeline)) = Fin (1 / 2)"
    by (simp add: calculateAnimationSpeed_def narrated_drawing_def narration_timeline_def
        Math_min_def Math_max_def Let_def)
  then have two: "snd (generateSynchronizedAnimation hd_config first_run narrated_drawing
            (Some narration_timeline)) = hd_config\<lparr>cfg_speed := Fin (1 / 2)\<rparr>"
    by (simp add: generateSynchronizedAnimation_def Let_def)
  have three: "hd_config\<lparr>cfg_speed := Fin (1 / 2)\<rparr> \<noteq> hd_config"
    by (simp add: hd_config_def)
  let ?count = "\<lambda>s. case sy_animation s of
                   Progressive r \<Rightarrow> 0 | FrameByFrame f \<Rightarrow> length (fb_frames f)"
  have "allocate [inherited_group_box] = Inl TypeError"
    by (simp add: allocate_def sortElementsByDaiShiOrder_def js_sort_def
        createAnimationGroups_def inherited_group_box_def plain_element_def
        inherited_key_def Let_def)
  from generateAnimation_fallback [OF this]
  have count: "map_option ?count
                 (fst (generateSynchronizedAnimation (hd_config\<lparr>cfg_speed := Fin r\<rparr>) first_run
                         [inherited_group_box] None))
               = (if r = 0 then None else Some (nat \<lceil>30 / r\<rceil>))" for r
    using fallback_frames [of r]
    by (simp add: synchronized_None option.map_comp comp_def)
  have same: "hd_config\<lparr>cfg_speed := Fin 1\<rparr> = hd_config"
    by (simp add: hd_config_def)
  have "map_option ?count
          (fst (generateSynchronizedAnimation hd_config first_run [inherited_group_box] None))
        = Some 30"
    using count [of 1] by (simp add: same)
  moreover have "map_option ?count
          (fst (generateSynchronizedAnimation (hd_config\<lparr>cfg_speed := Fin (1 / 2)\<rparr>) first_run
                  [inherited_group_box] None))
        = Some 60"
    using count [of "1 / 2"] by simp
  ultimately have four:
    "fst (generateSynchronizedAnimation hd_config first_run [inherited_group_box] None)
       \<noteq> fst (generateSynchronizedAnimation (hd_config\<lparr>cfg_speed := Fin (1 / 2)\<rparr>) first_run
                [inherited_group_box] None)"
    by auto
  from one two three four show ?thesis by simp
qed

text \<open>
  Claim C9, amended: a call of the synchronized generator reads, besides its arguments,
  \<^verbatim>\<open>Math.random()\<close>, \<^verbatim>\<open>Date.now()\<close> and the speed in the configuration of the animator, and
  it is not free of effects: with a narration it leaves the speed that
  \<^verbatim>\<open>calculateAnimationSpeed\<close> derives from the number of elements and the total duration of
  the narration in that configuration; without one it leaves the configuration as it
  was. When a narration is given or the allocator succeeds, two calls on equal arguments
  both return and agree on the timing output, that is on the sorted elements, the
  descriptor list, the total duration and the narration metadata, whatever
  \<^verbatim>\<open>Math.random()\<close> and \<^verbatim>\<open>Date.now()\<close> give and whatever speed an earlier call has left in the
  animator; they agree on the whole result, SVG included, when moreover every text
  element of the drawing has a text and an id.
\<close>

theorem two_runs_agree:
  "let run1 = generateSynchronizedAnimation cfg env1 es narration;
       run2 = generateSynchronizedAnimation (cfg\<lparr>cfg_speed := v\<rparr>) env2 es narration
   in snd run1 = (case narration of
                    None \<Rightarrow> cfg
                  | Some tline \<Rightarrow>
                      cfg\<lparr>cfg_speed := calculateAnimationSpeed (length es)
                                          (Fin (totalDuration tline))\<rparr>)
    \<and> (narration \<noteq> None \<or> (\<exists>t. allocate es = Inr t) \<longrightarrow>
         fst run1 \<noteq> None
       \<and> map_option timing_output (fst run1) = map_option timing_output (fst run2)
       \<and> (texts_given es \<longrightarrow> fst run1 = fst run2))"
proof (cases narration)
  case None
  have "fst (generateSynchronizedAnimation cfg env1 es None) \<noteq> None
       \<and> map_option timing_output (fst (generateSynchronizedAnimation cfg env1 es None))
          = map_option timing_output
              (fst (generateSynchronizedAnimation (cfg\<lparr>cfg_speed := v\<rparr>) env2 es None))
       \<and> (texts_given es \<longrightarrow>
            fst (generateSynchronizedAnimation cfg env1 es None)
              = fst (generateSynchronizedAnimation (cfg\<lparr>cfg_speed := v\<rparr>) env2 es None))"
    if t: "allocate es = Inr t" for t
    using generateAnimation_two_runs [OF t, where cfg = cfg and ?env1.0 = env1
        and ?env2.0 = env2 and v = v and n = None
        and ?ts1.0 = "createDefaultTimestamps es" and ?ts2.0 = "createDefaultTimestamps es"]
    by (simp add: synchronized_None option.map_comp comp_def)
  with None show ?thesis
    by (auto simp: Let_def synchronized_None)
next
  case (Some tline)
  let ?s = "calculateAnimationSpeed (length es) (Fin (totalDuration tline))"
  let ?cfg = "cfg\<lparr>cfg_speed := ?s\<rparr>"
  let ?ts = "createSynchronizedTimestamps es tline"
  let ?sync = "\<lparr>ns_timeline = tline,
                ns_segments =
                  map (\<lambda>seg. \<lparr>audioStart = startTime seg, audioEnd = endTime seg,
                              animationFrames = animationSync seg\<rparr>)
                      (at_segments tline)\<rparr>"
  let ?mk = "\<lambda>a. \<lparr>sy_animation = a, narrationSync = Some ?sync\<rparr>"
  have run: "generateSynchronizedAnimation (cfg\<lparr>cfg_speed := w\<rparr>) env es (Some tline)
               = (map_option ?mk (generateAnimation ?cfg env es ?ts), ?cfg)" for w env
    by (simp add: generateSynchronizedAnimation_def Let_def)
  have run1: "generateSynchronizedAnimation cfg env1 es (Some tline)
               = (map_option ?mk (generateAnimation ?cfg env1 es ?ts), ?cfg)"
    by (simp add: generateSynchronizedAnimation_def Let_def)
  have same: "?cfg\<lparr>cfg_speed := ?s\<rparr> = ?cfg" by simp
  have agree: "generateAnimation ?cfg env1 es ?ts \<noteq> None
       \<and> map_option (\<lambda>a. timing_output (?mk a)) (generateAnimation ?cfg env1 es ?ts)
          = map_option (\<lambda>a. timing_output (?mk a)) (generateAnimation ?cfg env2 es ?ts)
       \<and> (texts_given es \<longrightarrow>
            generateAnimation ?cfg env1 es ?ts = generateAnimation ?cfg env2 es ?ts)"
  proof (cases "allocate es")
    case (Inl err)
    have "cfg_speed ?cfg \<noteq> Fin 0"
      by (simp add: calculateAnimationSpeed_not_zero)
    from generateFrameByFrame_returns [OF this, of ?ts]
    show ?thesis
      by (simp add: generateAnimation_fallback [OF Inl])
  next
    case (Inr t)
    from generateAnimation_two_runs [OF Inr, where cfg = ?cfg and ?env1.0 = env1
        and ?env2.0 = env2 and v = ?s and n = "Some ?sync" and ?ts1.0 = ?ts and ?ts2.0 = ?ts]
    show ?thesis
      unfolding same by simp
  qed
  then show ?thesis
    unfolding Some Let_def run run1
    by (simp add: option.map_comp comp_def)
qed

theorem two_runs_agree_witness:
  "texts_given [titled_text] \<and> (\<exists>t. allocate [titled_text] = Inr t)
   \<and> fst (generateSynchronizedAnimation hd_config first_run [titled_text] None) \<noteq> None
   \<and> fst (generateSynchronizedAnimation hd_config first_run [titled_text] None)
       = fst (generateSynchronizedAnimation (hd_config\<lparr>cfg_speed := Fin (1 / 2)\<rparr>) second_run
                [titled_text] None)
   \<and> snd (generateSynchronizedAnimation hd_config first_run narrated_drawing
            (Some narration_timeline))
       = hd_config\<lparr>cfg_speed := Fin (1 / 2)\<rparr>
   \<and> fst (generateSynchronizedAnimation hd_config first_run narrated_drawing
            (Some narration_timeline)) \<noteq> None"
proof -
  have given: "texts_given [titled_text]"
    by (simp add: texts_given_def titled_text_def plain_element_def)
  have "groupIds titled_text = []"
    by (simp add: titled_text_def plain_element_def)
  from single_ungrouped [OF this] have t: "\<exists>t. allocate [titled_text] = Inr t"
    by simp
  have sp: "calculateAnimationSpeed (length narrated_drawing)
          (Fin (totalDuration narration_timeline)) = Fin (1 / 2)"
    by (simp add: calculateAnimationSpeed_def narrated_drawing_def narration_timeline_def
        Math_min_def Math_max_def Let_def)
  from two_runs_agree [of hd_config first_run "[titled_text]" None "Fin (1 / 2)" second_run]
    given t
  have "fst (generateSynchronizedAnimation hd_config first_run [titled_text] None) \<noteq> None
     \<and> fst (generateSynchronizedAnimation hd_config first_run [titled_text] None)
       = fst (generateSynchronizedAnimation (hd_config\<lparr>cfg_speed := Fin (1 / 2)\<rparr>) second_run
                [titled_text] None)"
    unfolding Let_def by blast
  moreover
  from two_runs_agree [of hd_config first_run narrated_drawing "Some narration_timeline"
      "Fin 1" first_run]
  have "snd (generateSynchronizedAnimation hd_config first_run narrated_drawing
            (Some narration_timeline))
       = hd_config\<lparr>cfg_speed := Fin (1 / 2)\<rparr>"
    and "fst (generateSynchronizedAnimation hd_config first_run narrated_drawing
            (Some narration_timeline)) \<noteq> None"
    by (simp_all add: Let_def sp)
  ultimately show ?thesis using given t by blast
qed

end
